theory Spec2Isabelle
  imports Complex_Main
begin

section \<open>Trajectory data of gros: a model of \<open>gros/utils/datahandling.py\<close>\<close>

text \<open>
  The class \<open>SpaceTimeData\<close> wraps a numpy array of trajectory samples \<open>(tau, t, r, theta, phi)\<close>,
  converts the spatial triple of every row in place, and hands drawable primitives to the
  rerun viewer. The model below follows the Python text function by function.

  Conventions of the model:
  \<^item> the elements of an array are real numbers, and an array carries its element type, since
    numpy casts what is assigned into an integer array;
  \<^item> the spacing of the animation frames is computed in float64 arithmetic, which is modelled
    with its rounding, its infinities and NaN, because a ceiling is taken of the result and a
    rounding error changes which samples are drawn; the coordinates and the labels are real
    numbers, standing for the floats that approximate them;
  \<^item> a numpy array is an object on the heap: an element type, a shape and a flat row-major
    buffer; the heap is an explicit store, because the data frame built by the constructor may
    share the buffer of the caller's array;
  \<^item> an exception is a value of \<open>py_error\<close>, returned on the left of a sum;
  \<^item> the rerun recording and the module logger are a record that is passed along and returned,
    also when an exception ends the call.
\<close>

subsection \<open>Exceptions, arrays and the store\<close>

datatype py_error =
    ValueError string
  | TypeError string
  | AttributeError string
  | KeyError int
  | OverflowError string

type_synonym addr = nat

text \<open>The element types of a numeric trajectory: \<open>float64\<close>, which numpy gives to an array
  built from Python floats, and \<open>int64\<close>, which it gives to one built from Python ints.\<close>

datatype dtype = Float64 | Int64

record ndarray =
  dtype :: dtype
  shape :: "nat list"
  buf :: "real list"

type_synonym store = "addr \<Rightarrow> ndarray"

text \<open>What a caller can pass as \<open>trajectory\<close>: a numpy array (a reference into the store) or
  any other object, which \<open>isinstance(trajectory, np.ndarray)\<close> rejects.\<close>

datatype py_value = NdarrayRef addr | OtherObject

text \<open>\<open>len(a)\<close> is the first dimension; numpy raises \<open>TypeError\<close> for a 0-dimensional array.\<close>

definition py_len :: "ndarray \<Rightarrow> py_error + nat" where
  "py_len a = (case shape a of
                 [] \<Rightarrow> Inl (TypeError ''len() of unsized object'')
               | n # _ \<Rightarrow> Inr n)"

text \<open>\<open>a.any()\<close>: some element is not zero.\<close>

definition ndarray_any :: "ndarray \<Rightarrow> bool" where
  "ndarray_any a = list_ex (\<lambda>v. v \<noteq> 0) (buf a)"

text \<open>Assigning a float to an element casts it to the element type of the array: an integer
  array keeps the integer part, the fraction is cut off towards zero.\<close>

definition cast_to :: "dtype \<Rightarrow> real \<Rightarrow> real" where
  "cast_to t v =
     (case t of
        Float64 \<Rightarrow> v
      | Int64 \<Rightarrow> of_int (if 0 \<le> v then \<lfloor>v\<rfloor> else \<lceil>v\<rceil>))"

text \<open>Element \<open>a[i][j]\<close> of a two-dimensional array, read and written through the row view.\<close>

definition getitem2 :: "ndarray \<Rightarrow> nat \<Rightarrow> nat \<Rightarrow> real" where
  "getitem2 a i j = buf a ! (i * (shape a ! 1) + j)"

definition setitem2 :: "ndarray \<Rightarrow> nat \<Rightarrow> nat \<Rightarrow> real \<Rightarrow> ndarray" where
  "setitem2 a i j v = a\<lparr>buf := (buf a)[i * (shape a ! 1) + j := cast_to (dtype a) v]\<rparr>"

subsection \<open>float64 arithmetic\<close>

text \<open>
  A float64 is a finite real number, an infinity or NaN (the sign of a zero is not kept).
  \<open>round64\<close> is rounding to the nearest float64, ties to even: 53 significant bits, the exponent
  of the leading bit not below \<open>-1022\<close>, so that numbers below \<open>2^-1022\<close> are rounded to multiples
  of \<open>2^-1074\<close> and the smallest ones to zero, and a result of \<open>2^1024\<close> or more is an infinity.
  Division and multiplication round the exact result, and follow IEEE 754 where an operand is
  zero, infinite or NaN. With a zero divisor the sign of the infinity is that of the dividend,
  as for a positive zero.
\<close>

datatype float64 = Finite real | PosInf | NegInf | NaN

definition pow2 :: "int \<Rightarrow> real" where
  "pow2 k = (if 0 \<le> k then 2 ^ nat k else 1 / 2 ^ nat (- k))"

definition round_half_even :: "real \<Rightarrow> int" where
  "round_half_even m =
     (let f = \<lfloor>m\<rfloor>; d = m - of_int f
      in if d < 1 / 2 then f else if 1 / 2 < d then f + 1 else if even f then f else f + 1)"

definition round64 :: "real \<Rightarrow> float64" where
  "round64 x =
     (if x = 0 then Finite 0
      else let e = max \<lfloor>log 2 \<bar>x\<bar>\<rfloor> (- 1022);
               q = pow2 (e - 52);
               r = of_int (round_half_even (\<bar>x\<bar> / q)) * q
           in if pow2 1024 \<le> r then (if 0 < x then PosInf else NegInf)
              else Finite (sgn x * r))"

definition fdiv :: "float64 \<Rightarrow> float64 \<Rightarrow> float64" where
  "fdiv a b =
     (case (a, b) of
        (Finite x, Finite y) \<Rightarrow>
          if y \<noteq> 0 then round64 (x / y)
          else if x = 0 then NaN else if 0 < x then PosInf else NegInf
      | (Finite x, PosInf) \<Rightarrow> Finite 0
      | (Finite x, NegInf) \<Rightarrow> Finite 0
      | (PosInf, Finite y) \<Rightarrow> if 0 \<le> y then PosInf else NegInf
      | (NegInf, Finite y) \<Rightarrow> if 0 \<le> y then NegInf else PosInf
      | _ \<Rightarrow> NaN)"

definition fmul :: "float64 \<Rightarrow> float64 \<Rightarrow> float64" where
  "fmul a b =
     (case (a, b) of
        (Finite x, Finite y) \<Rightarrow> round64 (x * y)
      | (Finite x, PosInf) \<Rightarrow> if x = 0 then NaN else if 0 < x then PosInf else NegInf
      | (Finite x, NegInf) \<Rightarrow> if x = 0 then NaN else if 0 < x then NegInf else PosInf
      | (PosInf, Finite y) \<Rightarrow> if y = 0 then NaN else if 0 < y then PosInf else NegInf
      | (NegInf, Finite y) \<Rightarrow> if y = 0 then NaN else if 0 < y then NegInf else PosInf
      | (PosInf, PosInf) \<Rightarrow> PosInf
      | (PosInf, NegInf) \<Rightarrow> NegInf
      | (NegInf, PosInf) \<Rightarrow> NegInf
      | (NegInf, NegInf) \<Rightarrow> PosInf
      | _ \<Rightarrow> NaN)"

text \<open>\<open>math.ceil\<close> of a float: an integer, or the exception Python raises for an infinity
  or NaN.\<close>

definition math_ceil :: "float64 \<Rightarrow> py_error + int" where
  "math_ceil v =
     (case v of
        Finite x \<Rightarrow> Inr \<lceil>x\<rceil>
      | PosInf \<Rightarrow> Inl (OverflowError ''cannot convert float infinity to integer'')
      | NegInf \<Rightarrow> Inl (OverflowError ''cannot convert float infinity to integer'')
      | NaN \<Rightarrow> Inl (ValueError ''cannot convert float NaN to integer''))"

subsection \<open>The coordinate transform\<close>

text \<open>
  Modelled from the spec: the enumeration \<open>CoordinateConversion\<close> of \<open>gros.utils.transforms\<close>
  is not among the sources. The specification names spherical-to-Cartesian as the default
  policy; the constructor only tests whether its argument is that member, so every other
  member is \<open>Conv_other\<close>.
\<close>

datatype CoordinateConversion = Conv_spherical_to_cartesian | Conv_other

text \<open>
  Modelled from the spec: \<open>spherical_to_cartesian\<close> of \<open>gros.utils.transforms\<close> is not among the
  sources. Section 4.1 of the specification gives it as \<open>x = r sin(theta) cos(phi)\<close>,
  \<open>y = r sin(theta) sin(phi)\<close>, \<open>z = r cos(theta)\<close>, with \<open>theta\<close> the polar and \<open>phi\<close> the azimuthal
  angle.
\<close>

definition spherical_to_cartesian :: "real \<Rightarrow> real \<Rightarrow> real \<Rightarrow> real \<times> real \<times> real" where
  "spherical_to_cartesian r theta phi =
     (r * sin theta * cos phi, r * sin theta * sin phi, r * cos theta)"

text \<open>
  Modelled from the spec: the same function on a scalar radius and two arrays of angles of
  equal shape, where section 4.1 requires it to work element-wise; the result is the three
  arrays of the \<open>x\<close>, \<open>y\<close> and \<open>z\<close> values.
\<close>

definition spherical_to_cartesian_grid ::
  "real \<Rightarrow> real list list \<Rightarrow> real list list
     \<Rightarrow> real list list \<times> real list list \<times> real list list" where
  "spherical_to_cartesian_grid r theta phi =
     (map2 (map2 (\<lambda>th ph. fst (spherical_to_cartesian r th ph))) theta phi,
      map2 (map2 (\<lambda>th ph. fst (snd (spherical_to_cartesian r th ph)))) theta phi,
      map2 (map2 (\<lambda>th ph. snd (snd (spherical_to_cartesian r th ph)))) theta phi)"

subsection \<open>The data frame and the dataset\<close>

definition DATA_COLUMNS :: "string list" where
  "DATA_COLUMNS = [''tau'', ''t'', ''x'', ''y'', ''z'']"

text \<open>
  A data frame holds a reference to the buffer of its values and a range index over the rows
  it had when it was built. A column is read through the store, by its position in
  \<open>DATA_COLUMNS\<close>: \<open>tau\<close> is column 0, \<open>t\<close> is 1, \<open>x\<close>, \<open>y\<close> and \<open>z\<close> are 2, 3 and 4.
\<close>

record DataFrame =
  values_ref :: addr
  index_len :: nat

text \<open>
  What \<open>pd.DataFrame(trajectory, columns=DATA_COLUMNS)\<close> does with a two-dimensional array
  depends on the pandas that is installed, and the sources name no version. Without
  copy-on-write the frame is a view of the array's buffer (\<open>ShareBuffer\<close>). With copy-on-write
  the constructor copies the array, and the frame refers to the copy (\<open>CopyTo q\<close>, where \<open>q\<close> is
  the address the copy is put at, a fresh one).
\<close>

datatype frame_policy = ShareBuffer | CopyTo addr

definition DataFrame_new :: "frame_policy \<Rightarrow> store \<Rightarrow> addr \<Rightarrow> nat \<Rightarrow> store \<times> DataFrame" where
  "DataFrame_new pandas st p n =
     (case pandas of
        ShareBuffer \<Rightarrow> (st, \<lparr>values_ref = p, index_len = n\<rparr>)
      | CopyTo q \<Rightarrow> (st(q := st p), \<lparr>values_ref = q, index_len = n\<rparr>))"

definition column :: "store \<Rightarrow> DataFrame \<Rightarrow> nat \<Rightarrow> real list" where
  "column st d c = map (\<lambda>i. getitem2 (st (values_ref d)) i c) [0..<index_len d]"

text \<open>\<open>series[k]\<close> looks the label \<open>k\<close> up in the range index.\<close>

definition series_getitem :: "real list \<Rightarrow> int \<Rightarrow> py_error + real" where
  "series_getitem s k =
     (if 0 \<le> k \<and> k < int (length s) then Inr (s ! nat k) else Inl (KeyError k))"

text \<open>\<open>series.max()\<close>, as the float64 that enters the division of line 145; pandas answers NaN
  for an empty series.\<close>

definition series_max :: "real list \<Rightarrow> float64" where
  "series_max s = (case s of [] \<Rightarrow> NaN | v # vs \<Rightarrow> round64 (fold max vs v))"

text \<open>The attribute \<open>df\<close> exists only when the constructor has assigned it.\<close>

record SpaceTimeData =
  rs :: real
  max_num_anim_frames :: int
  df :: "DataFrame option"

text \<open>The loop body of the constructor: the right-hand side is evaluated, then the three
  elements of the row are assigned, each cast to the element type of the array.\<close>

definition convert_point :: "nat \<Rightarrow> ndarray \<Rightarrow> ndarray" where
  "convert_point i a =
     (case spherical_to_cartesian (getitem2 a i 2) (getitem2 a i 3) (getitem2 a i 4) of
        (cx, cy, cz) \<Rightarrow> setitem2 (setitem2 (setitem2 a i 2 cx) i 3 cy) i 4 cz)"

text \<open>The constructor. The frame is built first (line 37), then the rows of the caller's
  array are converted in place (lines 39 to 46); \<open>pandas\<close> is the behaviour of the installed
  pandas.\<close>

definition SpaceTimeData_init ::
  "frame_policy \<Rightarrow> store \<Rightarrow> py_value \<Rightarrow> real \<Rightarrow> CoordinateConversion
     \<Rightarrow> py_error + (store \<times> SpaceTimeData)" where
  "SpaceTimeData_init pandas st trajectory rs0 conversion =
     (case trajectory of
        OtherObject \<Rightarrow> Inl (ValueError ''dataset must be numpy ndarray!'')
      | NdarrayRef p \<Rightarrow>
          (case py_len (st p) of
             Inl e \<Rightarrow> Inl e
           | Inr n \<Rightarrow>
               if shape (st p) \<noteq> [n, 5]
               then Inl (ValueError ''dataset shape needs to be (N,5)!'')
               else if ndarray_any (st p)
               then (case DataFrame_new pandas st p n of
                       (st1, d) \<Rightarrow>
                         Inr (if conversion = Conv_spherical_to_cartesian
                              then st1(p := fold convert_point [0..<n] (st1 p))
                              else st1,
                              \<lparr>rs = rs0, max_num_anim_frames = 100, df = Some d\<rparr>))
               else Inr (st, \<lparr>rs = rs0, max_num_anim_frames = 100, df = None\<rparr>)))"

definition no_attribute_df :: py_error where
  "no_attribute_df = AttributeError ''SpaceTimeData object has no attribute df''"

definition SpaceTimeData_size :: "SpaceTimeData \<Rightarrow> py_error + nat" where
  "SpaceTimeData_size self =
     (case df self of None \<Rightarrow> Inl no_attribute_df | Some d \<Rightarrow> Inr (index_len d))"

subsection \<open>The rerun recording and the logger\<close>

type_synonym point = "real \<times> real \<times> real"

text \<open>
  An archetype is what \<open>rr.log\<close> receives: line strips, or points with a radius, a colour and
  labels. A label is kept as its prefix and the number the f-string formats
  (\<open>gamma\<close> and \<open>Delta t\<close> stand for the Greek letters of the source).
\<close>

datatype archetype =
    LineStrips3D "point list list"
  | Points3D "point list" real "nat list" "(string \<times> real) list"

type_synonym entry = "real option \<times> string \<times> archetype"

record world =
  time_tau :: "real option"
  logged :: "entry list"
  warnings :: "(string \<times> int) list"

definition rr_init :: world where
  "rr_init = \<lparr>time_tau = None, logged = [], warnings = []\<rparr>"

definition rr_log :: "string \<Rightarrow> archetype \<Rightarrow> world \<Rightarrow> world" where
  "rr_log path a w = w\<lparr>logged := logged w @ [(time_tau w, path, a)]\<rparr>"

definition rr_set_time :: "real \<Rightarrow> world \<Rightarrow> world" where
  "rr_set_time v w = w\<lparr>time_tau := Some v\<rparr>"

definition logger_warning :: "string \<times> int \<Rightarrow> world \<Rightarrow> world" where
  "logger_warning m w = w\<lparr>warnings := warnings w @ [m]\<rparr>"

definition column_stack :: "real list \<Rightarrow> real list \<Rightarrow> real list \<Rightarrow> point list" where
  "column_stack xs ys zs = zip xs (zip ys zs)"

subsection \<open>Sphere surfaces\<close>

definition linspace :: "real \<Rightarrow> real \<Rightarrow> nat \<Rightarrow> real list" where
  "linspace start stop num =
     (if num = 1 then [start]
      else map (\<lambda>k. start + real k * ((stop - start) / real (num - 1))) [0..<num])"

text \<open>\<open>np.meshgrid(xs, ys)\<close> with the default indexing: both results have one row per element
  of \<open>ys\<close>; the first repeats \<open>xs\<close> in every row, the second fills row \<open>i\<close> with \<open>ys[i]\<close>.\<close>

definition meshgrid :: "real list \<Rightarrow> real list \<Rightarrow> real list list \<times> real list list" where
  "meshgrid xs ys = (map (\<lambda>_. xs) ys, map (\<lambda>v. map (\<lambda>_. v) xs) ys)"

definition sphere_points :: "real \<Rightarrow> point list" where
  "sphere_points radius =
     (let sph_theta0 = linspace 0 (2 * pi) 16;
          sph_phi0 = linspace 0 pi 16;
          (sph_theta, sph_phi) = meshgrid sph_phi0 sph_theta0;
          (sph_x, sph_y, sph_z) = spherical_to_cartesian_grid radius sph_theta sph_phi
      in column_stack (concat sph_x) (concat sph_y) (concat sph_z))"

definition log_sphere :: "real \<Rightarrow> string \<Rightarrow> nat \<times> nat \<times> nat \<Rightarrow> real \<Rightarrow> world \<Rightarrow> world" where
  "log_sphere radius name color opacity w =
     (case color of (cr, cg, cb) \<Rightarrow>
        rr_log (''world/'' @ name) (Points3D (sphere_points radius) 2 [cr, cg, cb] []) w)"

subsection \<open>Animation frames\<close>

text \<open>\<open>range(start, stop, step)\<close>: a zero step raises, a positive step counts up while below
  \<open>stop\<close>, a negative step counts down while above it.\<close>

function range_up :: "int \<Rightarrow> int \<Rightarrow> int \<Rightarrow> int list" where
  "range_up i stop step =
     (if 0 < step \<and> i < stop then i # range_up (i + step) stop step else [])"
  by pat_completeness auto
termination
  by (relation "measure (\<lambda>(i, stop, step). nat (stop - i))") auto

function range_down :: "int \<Rightarrow> int \<Rightarrow> int \<Rightarrow> int list" where
  "range_down i stop step =
     (if step < 0 \<and> stop < i then i # range_down (i + step) stop step else [])"
  by pat_completeness auto
termination
  by (relation "measure (\<lambda>(i, stop, step). nat (i - stop))") auto

declare range_up.simps [simp del] range_down.simps [simp del]

definition py_range :: "int \<Rightarrow> int \<Rightarrow> int \<Rightarrow> py_error + int list" where
  "py_range start stop step =
     (if step = 0 then Inl (ValueError ''range() arg 3 must not be zero'')
      else if 0 < step then Inr (range_up start stop step)
      else Inr (range_down start stop step))"

text \<open>
  Line 145: \<open>math.ceil(anim_step_size / data["tau"].max() * self.size())\<close>. The step size and
  the size enter as the nearest float64, the quotient is rounded, then the product. The
  quotient by a numpy float does not raise: with a maximum of zero it is an infinity, which
  \<open>math.ceil\<close> refuses with \<open>OverflowError\<close>, as it does when the quotient or the product
  overflows. The maximum of an empty column is NaN, which \<open>math.ceil\<close> refuses with
  \<open>ValueError\<close>.
\<close>

definition compute_frame_step_size :: "real \<Rightarrow> real list \<Rightarrow> nat \<Rightarrow> py_error + int" where
  "compute_frame_step_size anim_step_size tau n =
     math_ceil (fmul (fdiv (round64 anim_step_size) (series_max tau)) (round64 (real n)))"

text \<open>The body of the frame loop for index \<open>k\<close>.\<close>

definition particle_entry :: "store \<Rightarrow> DataFrame \<Rightarrow> nat \<Rightarrow> entry" where
  "particle_entry st d k =
     (let current_tau = column st d 0 ! k;
          current_t = column st d 1 ! k;
          time_dilation = (if current_tau \<noteq> 0 then current_t / current_tau else 0);
          time_diff = \<bar>current_t - current_tau\<bar>
      in (Some current_tau, ''world/particle'',
          Points3D [(column st d 2 ! k, column st d 3 ! k, column st d 4 ! k)] 6 [255, 0, 0]
            [(''tau'', current_tau), (''t'', current_t),
             (''gamma'', time_dilation), (''Delta t'', time_diff)]))"

definition log_frame :: "store \<Rightarrow> DataFrame \<Rightarrow> int \<Rightarrow> world \<Rightarrow> (py_error + unit) \<times> world" where
  "log_frame st d k w =
     (case series_getitem (column st d 0) k of
        Inl e \<Rightarrow> (Inl e, w)
      | Inr current_tau \<Rightarrow>
          (let w1 = rr_set_time current_tau w
           in case particle_entry st d (nat k) of
                (_, path, a) \<Rightarrow> (Inr (), rr_log path a w1)))"

fun log_frames :: "store \<Rightarrow> DataFrame \<Rightarrow> int list \<Rightarrow> world \<Rightarrow> (py_error + unit) \<times> world" where
  "log_frames st d [] w = (Inr (), w)"
| "log_frames st d (k # ks) w =
     (case log_frame st d k w of
        (Inl e, w1) \<Rightarrow> (Inl e, w1)
      | (Inr _, w1) \<Rightarrow> log_frames st d ks w1)"

definition too_large_warning :: "int \<Rightarrow> string \<times> int" where
  "too_large_warning m =
     (''animation_step_size is too large. Maximum number of animation frames will be limited to '', m)"

definition add_rerun_animation_frames ::
  "store \<Rightarrow> SpaceTimeData \<Rightarrow> real \<Rightarrow> world \<Rightarrow> (py_error + unit) \<times> world" where
  "add_rerun_animation_frames st self anim_step_size w =
     (if anim_step_size \<le> 0 then (Inr (), w)
      else case df self of
        None \<Rightarrow> (Inl no_attribute_df, w)
      | Some d \<Rightarrow>
          (case compute_frame_step_size anim_step_size (column st d 0) (index_len d) of
             Inl e \<Rightarrow> (Inl e, w)
           | Inr fss \<Rightarrow>
               (let (frame_step_size, w1) =
                      (if fss > max_num_anim_frames self
                       then (max_num_anim_frames self,
                             logger_warning (too_large_warning (max_num_anim_frames self)) w)
                       else (fss, w))
                in case py_range 1 (int (index_len d)) frame_step_size of
                     Inl e \<Rightarrow> (Inl e, w1)
                   | Inr ks \<Rightarrow> log_frames st d ks w1)))"

subsection \<open>plot\<close>

text \<open>The part of \<open>plot\<close> before the animation: the trajectory, the singularity, the horizon
  sphere and the optional attractor sphere. Choosing the viewer (spawn or connect) is outside
  the model.\<close>

definition plot_scene :: "store \<Rightarrow> SpaceTimeData \<Rightarrow> real \<Rightarrow> (py_error + unit) \<times> world" where
  "plot_scene st self attractor_radius =
     (let w0 = rr_init
      in case df self of
           None \<Rightarrow> (Inl no_attribute_df, w0)
         | Some d \<Rightarrow>
             (let trajectory_points = column_stack (column st d 2) (column st d 3) (column st d 4);
                  w1 = rr_log ''world/trajectory'' (LineStrips3D [trajectory_points]) w0;
                  w2 = rr_log ''world/singularity'' (Points3D [(0, 0, 0)] 5 [138, 43, 226] []) w1;
                  w3 = log_sphere (rs self) ''black_hole'' (138, 43, 226) (2 / 10) w2;
                  w4 = (if attractor_radius > 0
                        then log_sphere attractor_radius ''attractor'' (255, 255, 0) (1 / 10) w3
                        else w3)
              in (Inr (), w4)))"

definition plot :: "store \<Rightarrow> SpaceTimeData \<Rightarrow> real \<Rightarrow> real \<Rightarrow> (py_error + unit) \<times> world" where
  "plot st self attractor_radius animation_step_size =
     (case plot_scene st self attractor_radius of
        (Inl e, w) \<Rightarrow> (Inl e, w)
      | (Inr _, w) \<Rightarrow>
          if animation_step_size > 0
          then add_rerun_animation_frames st self animation_step_size w
          else (Inr (), w))"

text \<open>The entries logged under a given entity path.\<close>

definition entries_at :: "string \<Rightarrow> world \<Rightarrow> entry list" where
  "entries_at path w = filter (\<lambda>e. fst (snd e) = path) (logged w)"

text \<open>A store that holds the array \<open>a\<close> at every address.\<close>

definition store_of :: "ndarray \<Rightarrow> store" where
  "store_of a = (\<lambda>_. a)"

subsection \<open>Sample inputs\<close>

text \<open>Three samples on the polar axis at radius 2: \<open>tau = 0, 1, 2\<close> and \<open>t = 0, 3, 5\<close>.\<close>

definition three_samples :: ndarray where
  "three_samples = \<lparr>dtype = Float64, shape = [3, 5], buf = [0, 0, 2, 0, 0,  1, 3, 2, 0, 0,  2, 5, 2, 0, 0]\<rparr>"

text \<open>The same array after the constructor has converted it.\<close>

definition three_samples_converted :: ndarray where
  "three_samples_converted =
     \<lparr>dtype = Float64, shape = [3, 5], buf = [0, 0, 0, 0, 2,  1, 3, 0, 0, 2,  2, 5, 0, 0, 2]\<rparr>"

text \<open>Three samples whose proper time passes through zero at the second row.\<close>

definition crossing_samples :: ndarray where
  "crossing_samples =
     \<lparr>dtype = Float64, shape = [3, 5], buf = [-1, -3, 2, 0, 0,  0, 1, 2, 0, 0,  1, 4, 2, 0, 0]\<rparr>"

definition crossing_samples_converted :: ndarray where
  "crossing_samples_converted =
     \<lparr>dtype = Float64, shape = [3, 5], buf = [-1, -3, 0, 0, 2,  0, 1, 0, 0, 2,  1, 4, 0, 0, 2]\<rparr>"

text \<open>Two samples with negative proper time, and two with proper time zero throughout.\<close>

definition negative_tau_samples :: ndarray where
  "negative_tau_samples = \<lparr>dtype = Float64, shape = [2, 5], buf = [-2, 0, 2, 0, 0,  -1, 1, 2, 0, 0]\<rparr>"

definition negative_tau_converted :: ndarray where
  "negative_tau_converted = \<lparr>dtype = Float64, shape = [2, 5], buf = [-2, 0, 0, 0, 2,  -1, 1, 0, 0, 2]\<rparr>"

definition zero_tau_samples :: ndarray where
  "zero_tau_samples = \<lparr>dtype = Float64, shape = [2, 5], buf = [0, 1, 2, 0, 0,  0, 2, 2, 0, 0]\<rparr>"

definition zero_tau_converted :: ndarray where
  "zero_tau_converted = \<lparr>dtype = Float64, shape = [2, 5], buf = [0, 1, 0, 0, 2,  0, 2, 0, 0, 2]\<rparr>"

text \<open>An all-zero array of shape \<open>(2, 5)\<close>, as \<open>np.zeros((2, 5))\<close> gives.\<close>

definition zero_array :: ndarray where
  "zero_array = \<lparr>dtype = Float64, shape = [2, 5], buf = replicate 10 0\<rparr>"

text \<open>The dataset the constructor returns for \<open>rs = 1\<close> and an array of \<open>n\<close> rows at address 0,
  and the store it leaves when the array \<open>a\<close> has become \<open>b\<close>.\<close>

definition dataset_with :: "nat \<Rightarrow> SpaceTimeData" where
  "dataset_with n =
     \<lparr>rs = 1, max_num_anim_frames = 100, df = Some \<lparr>values_ref = 0, index_len = n\<rparr>\<rparr>"

definition store_after :: "ndarray \<Rightarrow> ndarray \<Rightarrow> store" where
  "store_after a b = (store_of a)(0 := b)"

text \<open>The array without rows, as \<open>np.zeros((0, 5))\<close> gives, and the dataset without a data frame.\<close>

definition empty_array :: ndarray where
  "empty_array = \<lparr>dtype = Float64, shape = [0, 5], buf = []\<rparr>"

definition dataset_without_frame :: SpaceTimeData where
  "dataset_without_frame = \<lparr>rs = 1, max_num_anim_frames = 100, df = None\<rparr>"



text \<open>A longer trajectory: 129 samples with \<open>tau = t = 0, 1, ..., 128\<close> on the polar axis at
  radius 1, as \<open>np.array([[k, k, 1, 0, 0] for k in range(129)], dtype=float)\<close> gives.\<close>

definition ramp_samples :: ndarray where
  "ramp_samples =
     \<lparr>dtype = Float64, shape = [129, 5], buf = concat (map (\<lambda>k. [real k, real k, 1, 0, 0]) [0..<129])\<rparr>"

section \<open>Properties\<close>

subsection \<open>Rounding to float64\<close>

lemma pow2_pos: "0 < pow2 k"
  by (simp add: pow2_def)

lemma pow2_powr: "pow2 k = 2 powr (of_int k)"
proof (cases "0 \<le> k")
  case True
  then have "2 powr (of_int k) = (2::real) powr (real (nat k))" by simp
  also have "\<dots> = 2 ^ nat k" by (simp add: powr_realpow)
  finally show ?thesis using True by (simp add: pow2_def)
next
  case False
  then have "(2::real) powr (of_int k) = 2 powr (- real (nat (- k)))" by simp
  also have "\<dots> = 1 / 2 ^ nat (- k)" by (simp add: powr_minus powr_realpow divide_inverse)
  finally show ?thesis using False by (simp add: pow2_def)
qed

lemma floor_log2:
  assumes "pow2 e \<le> \<bar>x\<bar>" and "\<bar>x\<bar> < pow2 (e + 1)"
  shows "\<lfloor>log 2 \<bar>x\<bar>\<rfloor> = e"
proof -
  have pos: "0 < \<bar>x\<bar>" using assms(1) pow2_pos[of e] by linarith
  have "2 powr (of_int e) \<le> \<bar>x\<bar> \<and> \<bar>x\<bar> < 2 powr (of_int (e + 1))"
    using assms by (simp only: pow2_powr)
  then show ?thesis
    using floor_log_eq_powr_iff[of "\<bar>x\<bar>" 2 e] pos by (simp add: add.commute)
qed

lemma round64_eval:
  assumes "pow2 e \<le> \<bar>x\<bar>" and "\<bar>x\<bar> < pow2 (e + 1)"
  shows "round64 x =
     (if pow2 1024 \<le> of_int (round_half_even (\<bar>x\<bar> / pow2 (max e (- 1022) - 52))) * pow2 (max e (- 1022) - 52)
      then (if 0 < x then PosInf else NegInf)
      else Finite (sgn x * (of_int (round_half_even (\<bar>x\<bar> / pow2 (max e (- 1022) - 52)))
                             * pow2 (max e (- 1022) - 52))))"
proof -
  have "x \<noteq> 0" using assms(1) pow2_pos[of e] by auto
  then show ?thesis
    by (simp add: round64_def floor_log2[OF assms] Let_def)
qed

lemma round_half_even_int: "round_half_even (of_int m) = m"
  by (simp add: round_half_even_def)

lemma pow2_mono: "a \<le> b \<Longrightarrow> pow2 a \<le> pow2 b"
  by (simp add: pow2_powr)

lemma round64_exact:
  assumes lo: "pow2 e \<le> \<bar>x\<bar>" and hi: "\<bar>x\<bar> < pow2 (e + 1)"
    and e: "- 1022 \<le> e" "e \<le> 1023"
    and m: "\<bar>x\<bar> = of_int m * pow2 (e - 52)"
  shows "round64 x = Finite x"
proof -
  have me: "max e (- 1022) = e" using e by simp
  have q: "pow2 (e - 52) \<noteq> 0" using pow2_pos[of "e - 52"] by simp
  have "\<bar>x\<bar> / pow2 (e - 52) = of_int m" using m q by simp
  then have r: "of_int (round_half_even (\<bar>x\<bar> / pow2 (e - 52))) * pow2 (e - 52) = \<bar>x\<bar>"
    by (simp add: round_half_even_int m)
  have "pow2 (e + 1) \<le> pow2 1024" using e by (intro pow2_mono) simp
  with hi have "\<not> pow2 1024 \<le> \<bar>x\<bar>" by simp
  moreover have "sgn x * \<bar>x\<bar> = x" by (simp add: sgn_mult_abs)
  ultimately show ?thesis
    by (simp only: round64_eval[OF lo hi] me r if_False)
qed

lemma round64_zero: "round64 0 = Finite 0"
  by (simp add: round64_def)

lemma round64_one: "round64 1 = Finite 1"
  by (rule round64_exact[where e = 0 and m = "2 ^ 52"]) (simp_all add: pow2_def)

lemma round64_two: "round64 2 = Finite 2"
  by (rule round64_exact[where e = 1 and m = "2 ^ 52"]) (simp_all add: pow2_def)

lemma round64_three: "round64 3 = Finite 3"
  by (rule round64_exact[where e = 1 and m = "3 * 2 ^ 51"]) (simp_all add: pow2_def)

lemma round64_half: "round64 (1 / 2) = Finite (1 / 2)"
  by (rule round64_exact[where e = "- 1" and m = "2 ^ 52"]) (simp_all add: pow2_def)

lemma round64_three_halves: "round64 (3 / 2) = Finite (3 / 2)"
  by (rule round64_exact[where e = 0 and m = "3 * 2 ^ 51"]) (simp_all add: pow2_def)

lemma round64_minus_one: "round64 (- 1) = Finite (- 1)"
  by (rule round64_exact[where e = 0 and m = "2 ^ 52"]) (simp_all add: pow2_def)

lemma round64_minus_two: "round64 (- 2) = Finite (- 2)"
  by (rule round64_exact[where e = 1 and m = "2 ^ 52"]) (simp_all add: pow2_def)

subsection \<open>Auxiliary facts\<close>

lemma series_max_Max:
  assumes "s \<noteq> []"
  shows "series_max s = round64 (Max (set s))"
proof (cases s)
  case Nil
  with assms show ?thesis by simp
next
  case (Cons v vs)
  then show ?thesis
    using Max.set_eq_fold[of v vs] by (simp add: series_max_def)
qed

lemma range_up_bounds: "k \<in> set (range_up i stop step) \<Longrightarrow> i \<le> k \<and> k < stop"
proof (induction i stop step rule: range_up.induct)
  case (1 i stop step)
  show ?case
  proof (cases "0 < step \<and> i < stop")
    case True
    with "1.prems" have "k = i \<or> k \<in> set (range_up (i + step) stop step)"
      by (subst (asm) range_up.simps) simp
    with True "1.IH" show ?thesis by fastforce
  next
    case False
    with "1.prems" show ?thesis by (subst (asm) range_up.simps) simp
  qed
qed

lemma range_up_nth: "j < length (range_up i stop step) \<Longrightarrow> range_up i stop step ! j = i + int j * step"
proof (induction i stop step arbitrary: j rule: range_up.induct)
  case (1 i stop step)
  show ?case
  proof (cases "0 < step \<and> i < stop")
    case True
    have eq: "range_up i stop step = i # range_up (i + step) stop step"
      using True by (subst range_up.simps) simp
    show ?thesis
    proof (cases j)
      case 0
      then show ?thesis by (simp add: eq)
    next
      case (Suc m)
      with "1.prems" eq have "m < length (range_up (i + step) stop step)" by simp
      with "1.IH"[OF True] have "range_up (i + step) stop step ! m = i + step + int m * step" by simp
      with Suc eq show ?thesis by (simp add: algebra_simps)
    qed
  next
    case False
    with "1.prems" show ?thesis by (subst (asm) range_up.simps) simp
  qed
qed

lemma range_up_maximal: "0 < step \<Longrightarrow> stop \<le> i + int (length (range_up i stop step)) * step"
proof (induction i stop step rule: range_up.induct)
  case (1 i stop step)
  show ?case
  proof (cases "i < stop")
    case True
    have eq: "range_up i stop step = i # range_up (i + step) stop step"
      using True "1.prems" by (subst range_up.simps) simp
    from "1.IH" True "1.prems" have "stop \<le> i + step + int (length (range_up (i + step) stop step)) * step" by simp
    then show ?thesis by (simp add: eq algebra_simps)
  next
    case False
    then have "range_up i stop step = []" by (subst range_up.simps) simp
    with False show ?thesis by simp
  qed
qed

lemma range_up_sorted: "sorted_wrt (<) (range_up i stop step)"
proof (induction i stop step rule: range_up.induct)
  case (1 i stop step)
  show ?case
  proof (cases "0 < step \<and> i < stop")
    case True
    have eq: "range_up i stop step = i # range_up (i + step) stop step"
      using True by (subst range_up.simps) simp
    have "\<forall>k\<in>set (range_up (i + step) stop step). i < k"
      using range_up_bounds[of _ "i + step" stop step] True by fastforce
    with "1.IH"[OF True] show ?thesis by (simp add: eq)
  next
    case False
    then have "range_up i stop step = []" by (subst range_up.simps) simp
    then show ?thesis by simp
  qed
qed

lemma range_up_first: "0 < step \<Longrightarrow> i < stop \<Longrightarrow> range_up i stop step \<noteq> [] \<and> hd (range_up i stop step) = i"
  by (subst (1 2) range_up.simps) simp

lemma log_frame_ok:
  "0 \<le> k \<Longrightarrow> k < int (index_len d) \<Longrightarrow>
   log_frame st d k w = (Inr (), w\<lparr>time_tau := Some (column st d 0 ! nat k), logged := logged w @ [particle_entry st d (nat k)]\<rparr>)"
  by (simp add: log_frame_def series_getitem_def column_def particle_entry_def rr_log_def rr_set_time_def Let_def)

lemma log_frames_ok:
  "\<forall>k\<in>set ks. 0 \<le> k \<and> k < int (index_len d) \<Longrightarrow>
   fst (log_frames st d ks w) = Inr () \<and>
   logged (snd (log_frames st d ks w)) = logged w @ map (\<lambda>k. particle_entry st d (nat k)) ks \<and>
   warnings (snd (log_frames st d ks w)) = warnings w"
proof (induction ks arbitrary: w)
  case Nil
  then show ?case by simp
next
  case (Cons k ks)
  then have k: "0 \<le> k" "k < int (index_len d)" and rest: "\<forall>k\<in>set ks. 0 \<le> k \<and> k < int (index_len d)"
    by simp_all
  show ?case
    using Cons.IH[OF rest, of "w\<lparr>time_tau := Some (column st d 0 ! nat k), logged := logged w @ [particle_entry st d (nat k)]\<rparr>"]
    by (simp add: log_frame_ok[OF k])
qed


lemma column_length: "length (column st d c) = index_len d"
  by (simp add: column_def)

lemma particle_entry_path: "fst (snd (particle_entry st d k)) = ''world/particle''"
  by (simp add: particle_entry_def Let_def)

lemma frames_run:
  assumes d: "df self = Some d"
    and step: "0 < anim_step_size"
    and c: "compute_frame_step_size anim_step_size (column st d 0) (index_len d) = Inr f0"
    and f: "f = (if f0 > max_num_anim_frames self then max_num_anim_frames self else f0)"
    and fpos: "0 < f"
  shows "fst (add_rerun_animation_frames st self anim_step_size w) = Inr ()"
    and "logged (snd (add_rerun_animation_frames st self anim_step_size w)) =
          logged w @ map (\<lambda>k. particle_entry st d (nat k)) (range_up 1 (int (index_len d)) f)"
    and "warnings (snd (add_rerun_animation_frames st self anim_step_size w)) =
          warnings w @ (if f0 > max_num_anim_frames self
                        then [too_large_warning (max_num_anim_frames self)] else [])"
proof -
  define w1 where "w1 = (if f0 > max_num_anim_frames self
             then logger_warning (too_large_warning (max_num_anim_frames self)) w else w)"
  have r: "py_range 1 (int (index_len d)) f = Inr (range_up 1 (int (index_len d)) f)"
    using fpos by (simp add: py_range_def)
  have run: "add_rerun_animation_frames st self anim_step_size w =
      log_frames st d (range_up 1 (int (index_len d)) f) w1"
  proof (cases "f0 > max_num_anim_frames self")
    case True
    with step d c r f show ?thesis
      by (simp add: add_rerun_animation_frames_def w1_def)
  next
    case False
    with step d c r f show ?thesis
      by (simp add: add_rerun_animation_frames_def w1_def)
  qed
  have inr: "\<forall>k\<in>set (range_up 1 (int (index_len d)) f). 0 \<le> k \<and> k < int (index_len d)"
    using range_up_bounds[of _ 1 "int (index_len d)" f] by fastforce
  note lf = log_frames_ok[OF inr, of st w1]
  have lw: "logged w1 = logged w"
    and ww: "warnings w1 = warnings w @ (if f0 > max_num_anim_frames self
                        then [too_large_warning (max_num_anim_frames self)] else [])"
    by (simp_all add: w1_def logger_warning_def)
  show "fst (add_rerun_animation_frames st self anim_step_size w) = Inr ()"
    using lf by (simp add: run)
  show "logged (snd (add_rerun_animation_frames st self anim_step_size w)) =
          logged w @ map (\<lambda>k. particle_entry st d (nat k)) (range_up 1 (int (index_len d)) f)"
    using lf lw by (simp add: run)
  show "warnings (snd (add_rerun_animation_frames st self anim_step_size w)) =
          warnings w @ (if f0 > max_num_anim_frames self
                        then [too_large_warning (max_num_anim_frames self)] else [])"
    using lf ww by (simp only: run)
qed

lemma plot_scene_ok:
  assumes "df self = Some d"
  shows "fst (plot_scene st self att) = Inr ()"
    and "warnings (snd (plot_scene st self att)) = []"
  using assms
  by (simp_all add: plot_scene_def rr_init_def rr_log_def log_sphere_def Let_def)

lemma plot_with_frames:
  assumes "df self = Some d" "0 < step"
  shows "plot st self att step = add_rerun_animation_frames st self step (snd (plot_scene st self att))"
  using assms plot_scene_ok(1)[OF assms(1), of st att]
  by (cases "plot_scene st self att") (auto simp: plot_def split: sum.splits)

lemma filter_particle_map:
  "filter (\<lambda>e. fst (snd e) = ''world/particle'') (map (\<lambda>k. particle_entry st d (f k)) ks)
     = map (\<lambda>k. particle_entry st d (f k)) ks"
  by (induction ks) (simp_all add: particle_entry_path)

lemma convert_point_shape: "shape (convert_point k a) = shape a"
  by (simp add: convert_point_def setitem2_def split: prod.splits)

lemma convert_point_dtype: "dtype (convert_point k a) = dtype a"
  by (simp add: convert_point_def setitem2_def split: prod.splits)

lemma convert_point_length: "length (buf (convert_point k a)) = length (buf a)"
  by (simp add: convert_point_def setitem2_def split: prod.splits)

lemma convert_point_getitem:
  assumes sh: "shape a = [n, 5]" and len: "length (buf a) = n * 5"
    and k: "k < n" and i: "i < n" and c: "c < 5"
  shows "getitem2 (convert_point k a) i c =
     (if i = k \<and> c = 2
      then cast_to (dtype a)
             (fst (spherical_to_cartesian (getitem2 a k 2) (getitem2 a k 3) (getitem2 a k 4)))
      else if i = k \<and> c = 3
      then cast_to (dtype a)
             (fst (snd (spherical_to_cartesian (getitem2 a k 2) (getitem2 a k 3) (getitem2 a k 4))))
      else if i = k \<and> c = 4
      then cast_to (dtype a)
             (snd (snd (spherical_to_cartesian (getitem2 a k 2) (getitem2 a k 3) (getitem2 a k 4))))
      else getitem2 a i c)"
proof -
  define X where "X = cast_to (dtype a)
    (fst (spherical_to_cartesian (getitem2 a k 2) (getitem2 a k 3) (getitem2 a k 4)))"
  define Y where "Y = cast_to (dtype a)
    (fst (snd (spherical_to_cartesian (getitem2 a k 2) (getitem2 a k 3) (getitem2 a k 4))))"
  define Z where "Z = cast_to (dtype a)
    (snd (snd (spherical_to_cartesian (getitem2 a k 2) (getitem2 a k 3) (getitem2 a k 4))))"
  have b: "buf (convert_point k a) = (buf a)[k * 5 + 2 := X, k * 5 + 3 := Y, k * 5 + 4 := Z]"
    by (simp add: convert_point_def setitem2_def sh X_def Y_def Z_def split: prod.splits)
  have g: "\<And>i c. getitem2 (convert_point k a) i c = buf (convert_point k a) ! (i * 5 + c)"
    by (simp add: getitem2_def convert_point_shape sh)
  have g0: "\<And>i c. getitem2 a i c = buf a ! (i * 5 + c)"
    by (simp add: getitem2_def sh)
  have in_range: "k * 5 + 2 < length (buf a)" "k * 5 + 3 < length (buf a)" "k * 5 + 4 < length (buf a)"
    using k len by simp_all
  have idx: "i * 5 + c = k * 5 + 2 \<longleftrightarrow> i = k \<and> c = 2"
       "i * 5 + c = k * 5 + 3 \<longleftrightarrow> i = k \<and> c = 3"
       "i * 5 + c = k * 5 + 4 \<longleftrightarrow> i = k \<and> c = 4"
    using c by presburger+
  consider (x) "i = k" "c = 2" | (y) "i = k" "c = 3" | (z) "i = k" "c = 4"
    | (other) "i * 5 + c \<noteq> k * 5 + 2" "i * 5 + c \<noteq> k * 5 + 3" "i * 5 + c \<noteq> k * 5 + 4"
        "\<not> (i = k \<and> c = 2)" "\<not> (i = k \<and> c = 3)" "\<not> (i = k \<and> c = 4)"
    using idx by blast
  then show ?thesis
  proof cases
    case x
    have "buf (convert_point k a) ! (i * 5 + c) = X"
      unfolding b using in_range x by simp
    with x show ?thesis by (simp add: g X_def)
  next
    case y
    have "buf (convert_point k a) ! (i * 5 + c) = Y"
      unfolding b using in_range y by simp
    with y show ?thesis by (simp add: g Y_def)
  next
    case z
    have "buf (convert_point k a) ! (i * 5 + c) = Z"
      unfolding b using in_range z by simp
    with z show ?thesis by (simp add: g Z_def)
  next
    case other
    have "buf (convert_point k a) ! (i * 5 + c) = buf a ! (i * 5 + c)"
      unfolding b using other(1-3) by (simp del: One_nat_def)
    with other(4-6) show ?thesis by (auto simp: g g0)
  qed
qed

lemma convert_loop:
  assumes sh: "shape a = [n, 5]" and len: "length (buf a) = n * 5"
  shows "m \<le> n \<Longrightarrow>
     shape (fold convert_point [0..<m] a) = [n, 5] \<and>
     dtype (fold convert_point [0..<m] a) = dtype a \<and>
     length (buf (fold convert_point [0..<m] a)) = n * 5 \<and>
     (\<forall>i<n. \<forall>c<5. getitem2 (fold convert_point [0..<m] a) i c =
        (if i < m \<and> c = 2
         then cast_to (dtype a)
                (fst (spherical_to_cartesian (getitem2 a i 2) (getitem2 a i 3) (getitem2 a i 4)))
         else if i < m \<and> c = 3
         then cast_to (dtype a)
                (fst (snd (spherical_to_cartesian (getitem2 a i 2) (getitem2 a i 3) (getitem2 a i 4))))
         else if i < m \<and> c = 4
         then cast_to (dtype a)
                (snd (snd (spherical_to_cartesian (getitem2 a i 2) (getitem2 a i 3) (getitem2 a i 4))))
         else getitem2 a i c))"
proof (induction m)
  case 0
  then show ?case by (simp add: sh len)
next
  case (Suc m)
  let ?b = "fold convert_point [0..<m] a"
  from Suc have m: "m < n" and shb: "shape ?b = [n, 5]" and dtb: "dtype ?b = dtype a"
    and lenb: "length (buf ?b) = n * 5"
    and ih: "\<And>i c. i < n \<Longrightarrow> c < 5 \<Longrightarrow> getitem2 ?b i c =
        (if i < m \<and> c = 2
         then cast_to (dtype a)
                (fst (spherical_to_cartesian (getitem2 a i 2) (getitem2 a i 3) (getitem2 a i 4)))
         else if i < m \<and> c = 3
         then cast_to (dtype a)
                (fst (snd (spherical_to_cartesian (getitem2 a i 2) (getitem2 a i 3) (getitem2 a i 4))))
         else if i < m \<and> c = 4
         then cast_to (dtype a)
                (snd (snd (spherical_to_cartesian (getitem2 a i 2) (getitem2 a i 3) (getitem2 a i 4))))
         else getitem2 a i c)"
    by simp_all
  have step: "fold convert_point [0..<Suc m] a = convert_point m ?b" by simp
  have row_m: "getitem2 ?b m 2 = getitem2 a m 2" "getitem2 ?b m 3 = getitem2 a m 3"
      "getitem2 ?b m 4 = getitem2 a m 4"
    using ih[OF m] by simp_all
  show ?case
  proof (intro conjI allI impI)
    show "shape (fold convert_point [0..<Suc m] a) = [n, 5]"
      by (simp only: step convert_point_shape shb)
    show "dtype (fold convert_point [0..<Suc m] a) = dtype a"
      by (simp only: step convert_point_dtype dtb)
    show "length (buf (fold convert_point [0..<Suc m] a)) = n * 5"
      by (simp only: step convert_point_length lenb)
    fix i c assume i: "i < n" and c: "c < (5::nat)"
    show "getitem2 (fold convert_point [0..<Suc m] a) i c =
        (if i < Suc m \<and> c = 2
         then cast_to (dtype a)
                (fst (spherical_to_cartesian (getitem2 a i 2) (getitem2 a i 3) (getitem2 a i 4)))
         else if i < Suc m \<and> c = 3
         then cast_to (dtype a)
                (fst (snd (spherical_to_cartesian (getitem2 a i 2) (getitem2 a i 3) (getitem2 a i 4))))
         else if i < Suc m \<and> c = 4
         then cast_to (dtype a)
                (snd (snd (spherical_to_cartesian (getitem2 a i 2) (getitem2 a i 3) (getitem2 a i 4))))
         else getitem2 a i c)"
      unfolding step convert_point_getitem[OF shb lenb m i c] row_m dtb
      using ih[OF i c] by (auto simp: less_Suc_eq)
  qed
qed

lemma scene_no_particle: "entries_at ''world/particle'' (snd (plot_scene st self att)) = []"
  by (simp add: plot_scene_def entries_at_def rr_init_def rr_log_def log_sphere_def Let_def
      split: option.splits)

lemma plot_particle_entries:
  assumes d: "df self = Some d"
    and step: "0 < step"
    and c: "compute_frame_step_size step (column st d 0) (index_len d) = Inr f0"
    and f: "f = (if f0 > max_num_anim_frames self then max_num_anim_frames self else f0)"
    and fpos: "0 < f"
  shows "fst (plot st self att step) = Inr ()"
    and "entries_at ''world/particle'' (snd (plot st self att step))
           = map (\<lambda>k. particle_entry st d (nat k)) (range_up 1 (int (index_len d)) f)"
    and "warnings (snd (plot st self att step))
           = (if f0 > max_num_anim_frames self
              then [too_large_warning (max_num_anim_frames self)] else [])"
proof -
  note run = frames_run[OF d step c f fpos, of "snd (plot_scene st self att)"]
  note p = plot_with_frames[OF d step, of st att]
  show "fst (plot st self att step) = Inr ()"
    by (simp only: p run(1))
  have "entries_at ''world/particle'' (snd (plot st self att step))
      = entries_at ''world/particle'' (snd (plot_scene st self att))
        @ filter (\<lambda>e. fst (snd e) = ''world/particle'')
            (map (\<lambda>k. particle_entry st d (nat k)) (range_up 1 (int (index_len d)) f))"
    by (simp add: p run(2) entries_at_def)
  then show "entries_at ''world/particle'' (snd (plot st self att step))
           = map (\<lambda>k. particle_entry st d (nat k)) (range_up 1 (int (index_len d)) f)"
    by (simp add: scene_no_particle filter_particle_map)
  show "warnings (snd (plot st self att step))
           = (if f0 > max_num_anim_frames self
              then [too_large_warning (max_num_anim_frames self)] else [])"
    by (simp only: p run(3) plot_scene_ok(2)[OF d] append_Nil)
qed

lemma range_down_bounds: "k \<in> set (range_down i stop step) \<Longrightarrow> stop < k \<and> k \<le> i"
proof (induction i stop step rule: range_down.induct)
  case (1 i stop step)
  show ?case
  proof (cases "step < 0 \<and> stop < i")
    case True
    with "1.prems" have "k = i \<or> k \<in> set (range_down (i + step) stop step)"
      by (subst (asm) range_down.simps) simp
    with True "1.IH" show ?thesis by fastforce
  next
    case False
    with "1.prems" show ?thesis by (subst (asm) range_down.simps) simp
  qed
qed

lemma log_frame_out_of_range:
  "\<not> (0 \<le> k \<and> k < int (index_len d)) \<Longrightarrow> log_frame st d k w = (Inl (KeyError k), w)"
  by (auto simp: log_frame_def series_getitem_def column_length)

lemma log_frames_logged:
  "\<exists>emitted. logged (snd (log_frames st d ks w)) = logged w @ map (\<lambda>k. particle_entry st d (nat k)) emitted
     \<and> set emitted \<subseteq> {k \<in> set ks. 0 \<le> k \<and> k < int (index_len d)}"
proof (induction ks arbitrary: w)
  case Nil
  then show ?case by simp
next
  case (Cons k ks)
  show ?case
  proof (cases "0 \<le> k \<and> k < int (index_len d)")
    case True
    define w1 where "w1 = w\<lparr>time_tau := Some (column st d 0 ! nat k),
        logged := logged w @ [particle_entry st d (nat k)]\<rparr>"
    have run: "log_frames st d (k # ks) w = log_frames st d ks w1"
      using True by (simp add: log_frame_ok w1_def)
    from Cons.IH[of w1] obtain rest where
      r: "logged (snd (log_frames st d ks w1)) = logged w1 @ map (\<lambda>k. particle_entry st d (nat k)) rest"
        "set rest \<subseteq> {k \<in> set ks. 0 \<le> k \<and> k < int (index_len d)}"
      by blast
    have "logged (snd (log_frames st d (k # ks) w))
        = logged w @ map (\<lambda>k. particle_entry st d (nat k)) (k # rest)"
      unfolding run r(1) by (simp add: w1_def)
    moreover have "set (k # rest) \<subseteq> {j \<in> set (k # ks). 0 \<le> j \<and> j < int (index_len d)}"
      using True r(2) by auto
    ultimately show ?thesis by blast
  next
    case False
    then have "log_frames st d (k # ks) w = (Inl (KeyError k), w)"
      by (simp add: log_frame_out_of_range)
    then show ?thesis by (intro exI[of _ "[]"]) simp
  qed
qed

lemma add_rerun_logged:
  assumes d: "df self = Some d"
  shows "\<exists>emitted. logged (snd (add_rerun_animation_frames st self step w))
                = logged w @ map (\<lambda>k. particle_entry st d (nat k)) emitted
     \<and> (\<forall>k\<in>set emitted. 1 \<le> k \<and> k < int (index_len d))"
proof -
  show ?thesis
  proof (cases "step \<le> 0")
    case True
    then have "add_rerun_animation_frames st self step w = (Inr (), w)"
      by (simp add: add_rerun_animation_frames_def)
    then show ?thesis by (intro exI[of _ "[]"]) simp
  next
    case pos: False
    show ?thesis
    proof (cases "compute_frame_step_size step (column st d 0) (index_len d)")
      case (Inl e)
      with pos d have "add_rerun_animation_frames st self step w = (Inl e, w)"
        by (simp add: add_rerun_animation_frames_def)
      then show ?thesis by (intro exI[of _ "[]"]) simp
    next
      case (Inr fss)
      define f where "f = (if fss > max_num_anim_frames self then max_num_anim_frames self else fss)"
      define w1 where "w1 = (if fss > max_num_anim_frames self
             then logger_warning (too_large_warning (max_num_anim_frames self)) w else w)"
      have lw: "logged w1 = logged w" by (simp add: w1_def logger_warning_def)
      have run: "add_rerun_animation_frames st self step w =
          (case py_range 1 (int (index_len d)) f of
             Inl e \<Rightarrow> (Inl e, w1) | Inr ks \<Rightarrow> log_frames st d ks w1)"
        unfolding f_def w1_def using pos d Inr
        by (cases "fss > max_num_anim_frames self") (simp_all add: add_rerun_animation_frames_def)
      show ?thesis
      proof (cases "py_range 1 (int (index_len d)) f")
        case (Inl e)
        then have "logged (snd (add_rerun_animation_frames st self step w)) = logged w"
          by (simp add: run lw)
        then show ?thesis by (intro exI[of _ "[]"]) simp
      next
        case r: (Inr ks)
        have ge: "\<forall>k\<in>set ks. 1 \<le> k"
        proof (cases "0 < f")
          case True
          with r have "ks = range_up 1 (int (index_len d)) f" by (simp add: py_range_def)
          then show ?thesis using range_up_bounds by blast
        next
          case False
          with r have "ks = range_down 1 (int (index_len d)) f"
            by (simp add: py_range_def split: if_splits)
          then have "\<forall>k\<in>set ks. int (index_len d) < k" using range_down_bounds by blast
          then show ?thesis by fastforce
        qed
        from log_frames_logged[of st d ks w1] obtain emitted where
          dn: "logged (snd (log_frames st d ks w1)) = logged w1 @ map (\<lambda>k. particle_entry st d (nat k)) emitted"
            "set emitted \<subseteq> {k \<in> set ks. 0 \<le> k \<and> k < int (index_len d)}"
          by blast
        have "logged (snd (add_rerun_animation_frames st self step w))
            = logged w @ map (\<lambda>k. particle_entry st d (nat k)) emitted"
          by (simp add: run r dn(1) lw)
        moreover have "\<forall>k\<in>set emitted. 1 \<le> k \<and> k < int (index_len d)"
          using dn(2) ge by auto
        ultimately show ?thesis by blast
      qed
    qed
  qed
qed

subsection \<open>The sample inputs, evaluated\<close>

lemma upt_0_2: "[0..<2] = [0, 1]" by (simp add: upt_rec)
lemma upt_0_3: "[0..<3] = [0, 1, 2]" by (simp add: upt_rec)

lemmas eval_init = SpaceTimeData_init_def DataFrame_new_def py_len_def store_of_def store_after_def
  ndarray_any_def dataset_with_def upt_0_2 upt_0_3 convert_point_def getitem2_def setitem2_def
  cast_to_def spherical_to_cartesian_def

lemma init_three_samples:
  "SpaceTimeData_init ShareBuffer (store_of three_samples) (NdarrayRef 0) 1
     Conv_spherical_to_cartesian
     = Inr (store_after three_samples three_samples_converted, dataset_with 3)"
  by (simp add: eval_init three_samples_def three_samples_converted_def)

lemma init_crossing_samples:
  "SpaceTimeData_init ShareBuffer (store_of crossing_samples) (NdarrayRef 0) 1
     Conv_spherical_to_cartesian
     = Inr (store_after crossing_samples crossing_samples_converted, dataset_with 3)"
  by (simp add: eval_init crossing_samples_def crossing_samples_converted_def)

lemma init_negative_tau:
  "SpaceTimeData_init ShareBuffer (store_of negative_tau_samples) (NdarrayRef 0) 1
     Conv_spherical_to_cartesian
     = Inr (store_after negative_tau_samples negative_tau_converted, dataset_with 2)"
  by (simp add: eval_init negative_tau_samples_def negative_tau_converted_def)

lemma init_zero_tau:
  "SpaceTimeData_init ShareBuffer (store_of zero_tau_samples) (NdarrayRef 0) 1
     Conv_spherical_to_cartesian
     = Inr (store_after zero_tau_samples zero_tau_converted, dataset_with 2)"
  by (simp add: eval_init zero_tau_samples_def zero_tau_converted_def)

lemma init_zero_array:
  "SpaceTimeData_init pandas (store_of zero_array) (NdarrayRef 0) 1 Conv_spherical_to_cartesian
     = Inr (store_of zero_array, \<lparr>rs = 1, max_num_anim_frames = 100, df = None\<rparr>)"
  by (simp add: eval_init zero_array_def list_ex_iff)

lemmas eval_column = column_def store_after_def getitem2_def upt_0_2 upt_0_3

lemma three_columns:
  "column (store_after three_samples three_samples_converted) \<lparr>values_ref = 0, index_len = 3\<rparr> 0 = [0, 1, 2]"
  "column (store_after three_samples three_samples_converted) \<lparr>values_ref = 0, index_len = 3\<rparr> 1 = [0, 3, 5]"
  by (simp_all add: eval_column three_samples_converted_def)


lemma negative_columns:
  "column (store_after negative_tau_samples negative_tau_converted) \<lparr>values_ref = 0, index_len = 2\<rparr> 0 = [-2, -1]"
  by (simp_all add: eval_column negative_tau_converted_def)

lemma zero_tau_columns:
  "column (store_after zero_tau_samples zero_tau_converted) \<lparr>values_ref = 0, index_len = 2\<rparr> 0 = [0, 0]"
  by (simp_all add: eval_column zero_tau_converted_def)

subsection \<open>The spacing of line 145 on the sample inputs\<close>

lemma three_step: "compute_frame_step_size 1 [0, 1, 2] 3 = Inr 2"
proof -
  have m: "series_max [0, 1, 2] = Finite 2" by (simp add: series_max_def round64_two)
  have q: "fdiv (Finite 1) (Finite 2) = Finite (1 / 2)" by (simp add: fdiv_def round64_half)
  have p: "fmul (Finite (1 / 2)) (Finite 3) = Finite (3 / 2)"
    by (simp add: fmul_def round64_three_halves)
  show ?thesis
    by (simp add: compute_frame_step_size_def round64_one round64_three m q p math_ceil_def)
qed


lemma negative_step: "compute_frame_step_size 1 [- 2, - 1] 2 = Inr (- 2)"
proof -
  have m: "series_max [- 2, - 1] = Finite (- 1)" by (simp add: series_max_def round64_minus_one)
  have q: "fdiv (Finite 1) (Finite (- 1)) = Finite (- 1)" by (simp add: fdiv_def round64_minus_one)
  have p: "fmul (Finite (- 1)) (Finite 2) = Finite (- 2)" by (simp add: fmul_def round64_minus_two)
  show ?thesis
    by (simp add: compute_frame_step_size_def round64_one round64_two m q p math_ceil_def)
qed

lemma zero_tau_step:
  "compute_frame_step_size 1 [0, 0] 2
     = Inl (OverflowError ''cannot convert float infinity to integer'')"
proof -
  have m: "series_max [0, 0] = Finite 0" by (simp add: series_max_def round64_zero)
  have q: "fdiv (Finite 1) (Finite 0) = PosInf" by (simp add: fdiv_def)
  have p: "fmul PosInf (Finite 2) = PosInf" by (simp add: fmul_def)
  show ?thesis
    by (simp add: compute_frame_step_size_def round64_one round64_two m q p math_ceil_def)
qed


lemma rounding_lifts_spacing:
  "compute_frame_step_size 7 (map real [1..<26]) 25 = Inr 8"
  "\<lceil>7 / 25 * 25 :: real\<rceil> = 7"
proof -
  have r7: "round64 7 = Finite 7"
    by (rule round64_exact[where e = 2 and m = "7 * 2 ^ 50"]) (simp_all add: pow2_def)
  have r25: "round64 25 = Finite 25"
    by (rule round64_exact[where e = 4 and m = "25 * 2 ^ 48"]) (simp_all add: pow2_def)
  have rq: "round64 (7 / 25) = Finite (5044031582654956 / 2 ^ 54)"
    using round64_eval[of "- 2" "7 / 25"]
    by (simp add: pow2_def round_half_even_def)
  have rp: "round64 (5044031582654956 / 2 ^ 54 * 25) = Finite (7881299347898369 / 2 ^ 50)"
    using round64_eval[of 2 "5044031582654956 / 2 ^ 54 * 25"]
    by (simp add: pow2_def round_half_even_def)
  have ne: "map real [1..<26] \<noteq> []" by simp
  have mx: "Max (set (map real [1..<26])) = 25"
  proof (rule Max_eqI)
    show "finite (set (map real [1..<26]))" by simp
    show "\<And>y. y \<in> set (map real [1..<26]) \<Longrightarrow> y \<le> 25" by auto
    show "25 \<in> set (map real [1..<26])" by (auto simp: image_iff intro: bexI[of _ 25])
  qed
  have m: "series_max (map real [1..<26]) = Finite 25"
    unfolding series_max_Max[OF ne] mx by (rule r25)
  have q: "fdiv (Finite 7) (Finite 25) = Finite (5044031582654956 / 2 ^ 54)"
    using rq by (simp add: fdiv_def)
  have p: "fmul (Finite (5044031582654956 / 2 ^ 54)) (Finite 25)
      = Finite (7881299347898369 / 2 ^ 50)"
    using rp by (simp add: fmul_def)
  have n: "round64 (real (25::nat)) = Finite 25" using r25 by simp
  show "compute_frame_step_size 7 (map real [1..<26]) 25 = Inr 8"
    unfolding compute_frame_step_size_def r7 m q n p
    by (simp add: math_ceil_def)
  show "\<lceil>7 / 25 * 25 :: real\<rceil> = 7" by simp
qed

lemma underflow_zero_spacing:
  "compute_frame_step_size (1 / 2 ^ 600) [2 ^ 600] 1000 = Inr 0"
  "py_range 1 1000 0 = Inl (ValueError ''range() arg 3 must not be zero'')"
proof -
  have rs: "round64 (1 / 2 ^ 600) = Finite (1 / 2 ^ 600)"
    by (rule round64_exact[where e = "- 600" and m = "2 ^ 52"]) (simp_all add: pow2_def)
  have rt: "round64 (2 ^ 600) = Finite (2 ^ 600)"
    by (rule round64_exact[where e = 600 and m = "2 ^ 52"]) (simp_all add: pow2_def)
  have rn: "round64 1000 = Finite 1000"
    by (rule round64_exact[where e = 9 and m = "125 * 2 ^ 46"]) (simp_all add: pow2_def)
  have rq: "round64 (1 / 2 ^ 600 / 2 ^ 600) = Finite 0"
    using round64_eval[of "- 1200" "1 / 2 ^ 600 / 2 ^ 600"]
    by (simp add: pow2_def round_half_even_def)
  have m: "series_max [2 ^ 600] = Finite (2 ^ 600)" using rt by (simp add: series_max_def)
  have q: "fdiv (Finite (1 / 2 ^ 600)) (Finite (2 ^ 600)) = Finite 0"
    using rq by (simp add: fdiv_def)
  have p: "fmul (Finite 0) (Finite 1000) = Finite 0" by (simp add: fmul_def round64_zero)
  have n: "round64 (real (1000::nat)) = Finite 1000" using rn by simp
  show "compute_frame_step_size (1 / 2 ^ 600) [2 ^ 600] 1000 = Inr 0"
    unfolding compute_frame_step_size_def rs m q n p
    by (simp add: math_ceil_def)
  show "py_range 1 1000 0 = Inl (ValueError ''range() arg 3 must not be zero'')"
    by (simp add: py_range_def)
qed

subsection \<open>Further auxiliary facts\<close>


lemma nth_concat_rows:
  assumes len: "\<And>k. length (f k) = m"
  shows "i < n \<Longrightarrow> c < m \<Longrightarrow> concat (map f [0..<n]) ! (i * m + c) = f i ! c"
proof (induction n)
  case 0
  then show ?case by simp
next
  case (Suc n)
  have l: "length (concat (map f [0..<n])) = n * m"
    by (induction n) (simp_all add: len)
  show ?case
  proof (cases "i < n")
    case True
    then have "i * m + c < n * m"
    proof -
      from True have "Suc i \<le> n" by simp
      then have "Suc i * m \<le> n * m" by (rule mult_le_mono1)
      with Suc.prems(2) show ?thesis by simp
    qed
    with Suc.IH[OF True Suc.prems(2)] l show ?thesis by (simp add: nth_append)
  next
    case False
    with Suc.prems have "i = n" by simp
    with l show ?thesis by (simp add: nth_append)
  qed
qed

lemma ramp_shape: "shape ramp_samples = [129, 5]" "length (buf ramp_samples) = 129 * 5"
  by (simp_all add: ramp_samples_def length_concat comp_def sum_list_triv)

lemma ramp_getitem:
  "i < 129 \<Longrightarrow> getitem2 ramp_samples i 0 = real i"
  using nth_concat_rows[of "\<lambda>k. [real k, real k, 1, 0, 0]" 5 i 129 0]
  by (simp add: getitem2_def ramp_samples_def)

lemma ramp_any: "ndarray_any ramp_samples"
proof -
  have "getitem2 ramp_samples 1 0 = 1" using ramp_getitem[of 1] by simp
  then have "buf ramp_samples ! 5 = 1" by (simp add: getitem2_def ramp_shape)
  moreover have "5 < length (buf ramp_samples)" by (simp add: ramp_shape)
  ultimately have "\<exists>v\<in>set (buf ramp_samples). v \<noteq> 0"
    by (metis nth_mem zero_neq_one)
  then show ?thesis by (simp add: ndarray_any_def list_ex_iff)
qed

lemma ramp_tau_max:
  "Max (set (map real [0..<129])) = 128"
proof (rule Max_eqI)
  show "finite (set (map real [0..<129]))" by simp
  show "\<And>y. y \<in> set (map real [0..<129]) \<Longrightarrow> y \<le> 128" by auto
  show "128 \<in> set (map real [0..<129])" by (auto simp: image_iff intro: bexI[of _ 128])
qed

lemma ramp_step: "compute_frame_step_size (1 / 2) (map real [0..<129]) 129 = Inr 1"
proof -
  have r128: "round64 128 = Finite 128"
    by (rule round64_exact[where e = 7 and m = "2 ^ 52"]) (simp_all add: pow2_def)
  have r129: "round64 129 = Finite 129"
    by (rule round64_exact[where e = 7 and m = "129 * 2 ^ 45"]) (simp_all add: pow2_def)
  have rq: "round64 (1 / 256) = Finite (1 / 256)"
    by (rule round64_exact[where e = "- 8" and m = "2 ^ 52"]) (simp_all add: pow2_def)
  have rp: "round64 (129 / 256) = Finite (129 / 256)"
    by (rule round64_exact[where e = "- 1" and m = "129 * 2 ^ 45"]) (simp_all add: pow2_def)
  have ne: "map real [0..<129] \<noteq> []" by simp
  have m: "series_max (map real [0..<129]) = Finite 128"
    unfolding series_max_Max[OF ne] ramp_tau_max by (rule r128)
  have q: "fdiv (Finite (1 / 2)) (Finite 128) = Finite (1 / 256)" by (simp add: fdiv_def rq)
  have p: "fmul (Finite (1 / 256)) (Finite 129) = Finite (129 / 256)" by (simp add: fmul_def rp)
  have n: "round64 (real (129::nat)) = Finite 129" using r129 by simp
  show ?thesis
    unfolding compute_frame_step_size_def round64_half m q n p
    by (simp add: math_ceil_def)
qed

lemma map2_const_left: "map2 f xs (map (\<lambda>_. v) xs) = map (\<lambda>u. f u v) xs"
  by (induction xs) simp_all

lemma map2_grid:
  "map2 (map2 f) (map (\<lambda>_. xs) ys) (map (\<lambda>v. map (\<lambda>_. v) xs) ys)
     = map (\<lambda>v. map (\<lambda>u. f u v) xs) ys"
  by (induction ys) (simp_all add: map2_const_left)

lemma zip_concat_grid:
  "zip (concat (map (\<lambda>v. map (\<lambda>u. f u v) xs) ys)) (concat (map (\<lambda>v. map (\<lambda>u. g u v) xs) ys))
     = concat (map (\<lambda>v. map (\<lambda>u. (f u v, g u v)) xs) ys)"
  by (induction ys) (simp_all add: zip_map_map zip_same_conv_map)

lemma sphere_points_grid:
  "sphere_points radius =
     concat (map (\<lambda>phi. map (\<lambda>theta. spherical_to_cartesian radius theta phi) (linspace 0 pi 16))
               (linspace 0 (2 * pi) 16))"
proof -
  have "sphere_points radius =
      zip (concat (map (\<lambda>v. map (\<lambda>u. fst (spherical_to_cartesian radius u v)) (linspace 0 pi 16)) (linspace 0 (2 * pi) 16)))
        (zip (concat (map (\<lambda>v. map (\<lambda>u. fst (snd (spherical_to_cartesian radius u v))) (linspace 0 pi 16)) (linspace 0 (2 * pi) 16)))
             (concat (map (\<lambda>v. map (\<lambda>u. snd (snd (spherical_to_cartesian radius u v))) (linspace 0 pi 16)) (linspace 0 (2 * pi) 16))))"
    by (simp only: sphere_points_def Let_def meshgrid_def spherical_to_cartesian_grid_def
        column_stack_def prod.case map2_grid)
  then show ?thesis
    by (simp only: zip_concat_grid prod.collapse)
qed

lemma linspace_length: "length (linspace a b 16) = 16"
  by (simp add: linspace_def)

lemma linspace_bounds:
  assumes "0 \<le> b" and "v \<in> set (linspace 0 b 16)"
  shows "0 \<le> v \<and> v \<le> b"
proof -
  from assms(2) obtain k :: nat where k: "k < 16" "v = real k * (b / 15)"
    by (auto simp: linspace_def)
  have lo: "0 \<le> real k * (b / 15)" using assms(1) by simp
  have "real k \<le> 15" using k(1) by simp
  then have "real k * (b / 15) \<le> 15 * (b / 15)"
    using assms(1) by (intro mult_right_mono) simp_all
  also have "15 * (b / 15) = b" by simp
  finally have hi: "real k * (b / 15) \<le> b" .
  show ?thesis unfolding k(2) using lo hi by (rule conjI)
qed

lemma linspace_ends: "hd (linspace 0 b 16) = 0" "last (linspace 0 b 16) = b"
  by (simp_all add: linspace_def hd_map last_map)

lemma spherical_to_cartesian_norm:
  "(case spherical_to_cartesian r theta phi of (x, y, z) \<Rightarrow> sqrt (x\<^sup>2 + y\<^sup>2 + z\<^sup>2)) = \<bar>r\<bar>"
proof -
  have a: "(cos phi)\<^sup>2 + (sin phi)\<^sup>2 = 1" and b: "(sin theta)\<^sup>2 + (cos theta)\<^sup>2 = 1"
    by simp_all
  have "(r * sin theta * cos phi)\<^sup>2 + (r * sin theta * sin phi)\<^sup>2 + (r * cos theta)\<^sup>2
      = r\<^sup>2 * ((sin theta)\<^sup>2 * ((cos phi)\<^sup>2 + (sin phi)\<^sup>2) + (cos theta)\<^sup>2)"
    by algebra
  also have "\<dots> = r\<^sup>2" by (simp only: a b mult_1_right)
  finally show ?thesis by (simp add: spherical_to_cartesian_def)
qed

lemma sphere_points_length: "length (sphere_points radius) = 256"
  by (simp add: sphere_points_grid length_concat comp_def sum_list_triv linspace_length)

lemma sphere_points_member:
  assumes "p \<in> set (sphere_points radius)"
  shows "\<exists>theta phi. theta \<in> set (linspace 0 pi 16) \<and> phi \<in> set (linspace 0 (2 * pi) 16)
           \<and> p = spherical_to_cartesian radius theta phi"
  using assms unfolding sphere_points_grid by auto

lemma plot_entries_other:
  assumes d: "df self = Some d" and path: "path \<noteq> ''world/particle''"
  shows "entries_at path (snd (plot st self att step)) = entries_at path (snd (plot_scene st self att))"
proof (cases "0 < step")
  case True
  from add_rerun_logged[OF d, of st step "snd (plot_scene st self att)"] obtain emitted where
    e: "logged (snd (add_rerun_animation_frames st self step (snd (plot_scene st self att))))
         = logged (snd (plot_scene st self att)) @ map (\<lambda>k. particle_entry st d (nat k)) emitted"
    by blast
  have "filter (\<lambda>e. fst (snd e) = path) (map (\<lambda>k. particle_entry st d (nat k)) emitted) = []"
    using path by (induction emitted) (simp_all add: particle_entry_path)
  then show ?thesis
    by (simp add: plot_with_frames[OF d True] e entries_at_def)
next
  case False
  then have "plot st self att step = plot_scene st self att"
    by (cases "plot_scene st self att") (auto simp: plot_def split: sum.splits)
  then show ?thesis by simp
qed

lemma scene_spheres:
  assumes d: "df self = Some d"
  shows "entries_at ''world/black_hole'' (snd (plot_scene st self att))
          = [(None, ''world/black_hole'', Points3D (sphere_points (rs self)) 2 [138, 43, 226] [])]"
    and "entries_at ''world/attractor'' (snd (plot_scene st self att))
          = (if 0 < att
             then [(None, ''world/attractor'', Points3D (sphere_points att) 2 [255, 255, 0] [])]
             else [])"
  using d
  by (simp_all add: plot_scene_def entries_at_def rr_init_def rr_log_def log_sphere_def Let_def)

lemma linspace_zero_mem: "0 \<in> set (linspace 0 b 16)"
proof -
  have "linspace 0 b 16 \<noteq> []" using linspace_length[of 0 b] by auto
  then have "hd (linspace 0 b 16) \<in> set (linspace 0 b 16)" by (rule hd_in_set)
  then show ?thesis by (simp add: linspace_ends)
qed

lemma north_pole_mem: "(0, 0, 2) \<in> set (sphere_points 2)"
proof -
  have "spherical_to_cartesian 2 0 0 = (0, 0, 2)" by (simp add: spherical_to_cartesian_def)
  then show ?thesis
    unfolding sphere_points_grid using linspace_zero_mem[of pi] linspace_zero_mem[of "2 * pi"]
    by force
qed

subsection \<open>The integer sample\<close>





lemma upt_0_1: "[0..<1] = [0]" by simp




subsection \<open>Validation at construction\<close>

text \<open>
  Claim C6, as amended. The constructor rejects every object that is not a numpy array with
  the \<open>ValueError\<close> "dataset must be numpy ndarray!", and every numpy array of at least one
  dimension whose shape is not \<open>(N, 5)\<close>, among them the shapes \<open>(N, 4)\<close> and \<open>(N, 6)\<close>, with the
  \<open>ValueError\<close> "dataset shape needs to be (N,5)!". The error is the result of the constructor:
  no dataset is returned.
\<close>

theorem C6_construction_rejects:
  "SpaceTimeData_init pandas st OtherObject rs0 conv
     = Inl (ValueError ''dataset must be numpy ndarray!'')
   \<and> (shape (st p) = n # rest \<and> rest \<noteq> [5] \<longrightarrow>
        SpaceTimeData_init pandas st (NdarrayRef p) rs0 conv
          = Inl (ValueError ''dataset shape needs to be (N,5)!''))"
  by (simp add: SpaceTimeData_init_def py_len_def)

theorem C6_construction_rejects_witness:
  "SpaceTimeData_init ShareBuffer
     (store_of \<lparr>dtype = Float64, shape = [3, 4], buf = replicate 12 1\<rparr>) (NdarrayRef 0) 1
     Conv_spherical_to_cartesian = Inl (ValueError ''dataset shape needs to be (N,5)!'')
   \<and> SpaceTimeData_init ShareBuffer
     (store_of \<lparr>dtype = Float64, shape = [3, 4], buf = replicate 12 1\<rparr>) OtherObject 1
     Conv_spherical_to_cartesian = Inl (ValueError ''dataset must be numpy ndarray!'')"
  using C6_construction_rejects
    [of ShareBuffer "store_of \<lparr>dtype = Float64, shape = [3, 4], buf = replicate 12 1\<rparr>"
       1 Conv_spherical_to_cartesian 0 3 "[4]"]
  by (simp add: store_of_def)

text \<open>
  Claim C6 as stated fails for a 0-dimensional array, whose shape \<open>()\<close> is not \<open>(N, 5)\<close>:
  \<open>len(trajectory)\<close> raises \<open>TypeError\<close> before the shapes are compared, so the error is neither
  of the two validation errors.
\<close>

theorem C6_zero_dim_counterexample:
  "SpaceTimeData_init ShareBuffer (store_of \<lparr>dtype = Float64, shape = [], buf = [3]\<rparr>)
     (NdarrayRef 0) 1 Conv_spherical_to_cartesian = Inl (TypeError ''len() of unsized object'')
   \<and> SpaceTimeData_init ShareBuffer (store_of \<lparr>dtype = Float64, shape = [], buf = [3]\<rparr>)
     (NdarrayRef 0) 1 Conv_spherical_to_cartesian
       \<noteq> Inl (ValueError ''dataset shape needs to be (N,5)!'')"
  by (simp add: SpaceTimeData_init_def py_len_def store_of_def)

subsection \<open>The dataset without a data frame\<close>

text \<open>
  Claim C1 does not hold of the code. For an all-zero array, and for an array without rows,
  the constructor succeeds but never assigns \<open>df\<close>. \<open>size()\<close> then raises \<open>AttributeError\<close>
  instead of returning 0, and \<open>plot\<close>, called with a positive attractor radius, raises the same
  error at \<open>data = self.df\<close>, before anything is logged: the recording holds neither the
  singularity marker nor a sphere.
\<close>

theorem C1_empty_state_raises:
  "SpaceTimeData_init pandas (store_of zero_array) (NdarrayRef 0) 1 Conv_spherical_to_cartesian
     = Inr (store_of zero_array, dataset_without_frame)
   \<and> SpaceTimeData_init pandas (store_of empty_array) (NdarrayRef 0) 1 Conv_spherical_to_cartesian
     = Inr (store_of empty_array, dataset_without_frame)
   \<and> SpaceTimeData_size dataset_without_frame = Inl no_attribute_df
   \<and> fst (plot (store_of zero_array) dataset_without_frame 1 0) = Inl no_attribute_df
   \<and> entries_at ''world/singularity''
       (snd (plot (store_of zero_array) dataset_without_frame 1 0)) = []
   \<and> entries_at ''world/attractor''
       (snd (plot (store_of zero_array) dataset_without_frame 1 0)) = []
   \<and> fst (plot (store_of empty_array) dataset_without_frame 1 0) = Inl no_attribute_df
   \<and> logged (snd (plot (store_of empty_array) dataset_without_frame 1 0)) = []"
proof -
  have e: "SpaceTimeData_init pandas (store_of empty_array) (NdarrayRef 0) 1 Conv_spherical_to_cartesian
     = Inr (store_of empty_array, dataset_without_frame)"
    by (simp add: eval_init empty_array_def dataset_without_frame_def)
  have z: "SpaceTimeData_init pandas (store_of zero_array) (NdarrayRef 0) 1 Conv_spherical_to_cartesian
     = Inr (store_of zero_array, dataset_without_frame)"
    by (simp add: init_zero_array dataset_without_frame_def)
  have sz: "SpaceTimeData_size dataset_without_frame = Inl no_attribute_df"
    by (simp add: SpaceTimeData_size_def dataset_without_frame_def)
  have p: "plot st dataset_without_frame 1 0 = (Inl no_attribute_df, rr_init)" for st
    by (simp add: plot_def plot_scene_def dataset_without_frame_def)
  have l: "logged rr_init = []" by (simp add: rr_init_def)
  show ?thesis
    unfolding p entries_at_def l fst_conv snd_conv filter.simps
    by (intro conjI z e sz refl)
qed

subsection \<open>Conversion at construction\<close>




subsection \<open>Sphere surfaces\<close>

text \<open>
  Claim C10. \<open>_log_sphere\<close> logs one point cloud of exactly 256 points, the 16 by 16 grid of
  the two angle ranges. Because \<open>np.meshgrid\<close> is given the two ranges in exchanged order, the
  angle passed to the converter as \<open>theta\<close> runs through \<open>linspace(0, pi, 16)\<close>, from 0 to \<open>pi\<close>,
  and the angle passed as \<open>phi\<close> through \<open>linspace(0, 2 pi, 16)\<close>, from 0 to \<open>2 pi\<close>. Under the
  conversion of section 4.1 every point of the cloud lies at Euclidean distance \<open>|radius|\<close>
  from the origin. For a dataset with a data frame, \<open>plot\<close> logs exactly one such cloud of
  radius \<open>rs\<close> under \<open>world/black_hole\<close>, and one of the attractor radius under
  \<open>world/attractor\<close> when that radius is positive.
\<close>

theorem C10_sphere_surfaces:
  "log_sphere radius name (cr, cg, cb) opacity w
     = rr_log (''world/'' @ name) (Points3D (sphere_points radius) 2 [cr, cg, cb] []) w
   \<and> length (sphere_points radius) = 256
   \<and> sphere_points radius
       = concat (map (\<lambda>phi. map (\<lambda>theta. spherical_to_cartesian radius theta phi)
                               (linspace 0 pi 16))
                   (linspace 0 (2 * pi) 16))
   \<and> (\<forall>theta \<in> set (linspace 0 pi 16). 0 \<le> theta \<and> theta \<le> pi)
   \<and> hd (linspace 0 pi 16) = 0 \<and> last (linspace 0 pi 16) = pi
   \<and> (\<forall>phi \<in> set (linspace 0 (2 * pi) 16). 0 \<le> phi \<and> phi \<le> 2 * pi)
   \<and> hd (linspace 0 (2 * pi) 16) = 0 \<and> last (linspace 0 (2 * pi) 16) = 2 * pi
   \<and> (\<forall>p \<in> set (sphere_points radius).
         case p of (x, y, z) \<Rightarrow> sqrt (x\<^sup>2 + y\<^sup>2 + z\<^sup>2) = \<bar>radius\<bar>)
   \<and> (df self = Some d \<longrightarrow>
         entries_at ''world/black_hole'' (snd (plot st self attractor_radius animation_step_size))
           = [(None, ''world/black_hole'',
               Points3D (sphere_points (rs self)) 2 [138, 43, 226] [])]
       \<and> entries_at ''world/attractor'' (snd (plot st self attractor_radius animation_step_size))
           = (if 0 < attractor_radius
              then [(None, ''world/attractor'',
                     Points3D (sphere_points attractor_radius) 2 [255, 255, 0] [])]
              else []))"
proof -
  have ls: "log_sphere radius name (cr, cg, cb) opacity w
     = rr_log (''world/'' @ name) (Points3D (sphere_points radius) 2 [cr, cg, cb] []) w"
    by (simp add: log_sphere_def)
  have pol: "\<forall>theta \<in> set (linspace 0 pi 16). 0 \<le> theta \<and> theta \<le> pi"
    using linspace_bounds[of pi] by simp
  have az: "\<forall>phi \<in> set (linspace 0 (2 * pi) 16). 0 \<le> phi \<and> phi \<le> 2 * pi"
    using linspace_bounds[of "2 * pi"] by simp
  have dist: "\<forall>p \<in> set (sphere_points radius).
         case p of (x, y, z) \<Rightarrow> sqrt (x\<^sup>2 + y\<^sup>2 + z\<^sup>2) = \<bar>radius\<bar>"
  proof
    fix p assume "p \<in> set (sphere_points radius)"
    then obtain theta phi where "p = spherical_to_cartesian radius theta phi"
      using sphere_points_member by blast
    then show "case p of (x, y, z) \<Rightarrow> sqrt (x\<^sup>2 + y\<^sup>2 + z\<^sup>2) = \<bar>radius\<bar>"
      using spherical_to_cartesian_norm[of radius theta phi] by (simp split: prod.splits)
  qed
  have pl: "df self = Some d \<longrightarrow>
         entries_at ''world/black_hole'' (snd (plot st self attractor_radius animation_step_size))
           = [(None, ''world/black_hole'',
               Points3D (sphere_points (rs self)) 2 [138, 43, 226] [])]
       \<and> entries_at ''world/attractor'' (snd (plot st self attractor_radius animation_step_size))
           = (if 0 < attractor_radius
              then [(None, ''world/attractor'',
                     Points3D (sphere_points attractor_radius) 2 [255, 255, 0] [])]
              else [])"
  proof
    assume d: "df self = Some d"
    show "entries_at ''world/black_hole'' (snd (plot st self attractor_radius animation_step_size))
           = [(None, ''world/black_hole'',
               Points3D (sphere_points (rs self)) 2 [138, 43, 226] [])]
       \<and> entries_at ''world/attractor'' (snd (plot st self attractor_radius animation_step_size))
           = (if 0 < attractor_radius
              then [(None, ''world/attractor'',
                     Points3D (sphere_points attractor_radius) 2 [255, 255, 0] [])]
              else [])"
      using plot_entries_other[OF d, of "''world/black_hole''" st attractor_radius animation_step_size]
        plot_entries_other[OF d, of "''world/attractor''" st attractor_radius animation_step_size]
        scene_spheres[OF d, of st attractor_radius]
      by simp
  qed
  show ?thesis
    by (intro conjI ls sphere_points_length sphere_points_grid pol az dist pl linspace_ends)
qed

theorem C10_sphere_surfaces_witness:
  "(0, 0, 2) \<in> set (sphere_points 2)
   \<and> sqrt (0\<^sup>2 + 0\<^sup>2 + 2\<^sup>2) = \<bar>2 :: real\<bar>
   \<and> length (sphere_points 2) = 256
   \<and> entries_at ''world/black_hole''
       (snd (plot (store_after three_samples three_samples_converted) (dataset_with 3) 2 0))
       = [(None, ''world/black_hole'', Points3D (sphere_points 1) 2 [138, 43, 226] [])]
   \<and> entries_at ''world/attractor''
       (snd (plot (store_after three_samples three_samples_converted) (dataset_with 3) 2 0))
       = [(None, ''world/attractor'', Points3D (sphere_points 2) 2 [255, 255, 0] [])]"
proof -
  have d: "df (dataset_with 3) = Some \<lparr>values_ref = 0, index_len = 3\<rparr>"
    and r: "rs (dataset_with 3) = 1"
    by (simp_all add: dataset_with_def)
  note c = C10_sphere_surfaces[where radius = 2 and self = "dataset_with 3"
      and d = "\<lparr>values_ref = 0, index_len = 3\<rparr>" and attractor_radius = 2
      and animation_step_size = 0
      and st = "store_after three_samples three_samples_converted"]
  from c have "\<forall>p \<in> set (sphere_points 2).
         case p of (x, y, z) \<Rightarrow> sqrt (x\<^sup>2 + y\<^sup>2 + z\<^sup>2) = \<bar>2 :: real\<bar>"
    by blast
  with north_pole_mem have "sqrt (0\<^sup>2 + 0\<^sup>2 + 2\<^sup>2) = \<bar>2 :: real\<bar>" by fastforce
  moreover from c have "length (sphere_points 2) = 256" by blast
  moreover from c d r have "entries_at ''world/black_hole''
       (snd (plot (store_after three_samples three_samples_converted) (dataset_with 3) 2 0))
       = [(None, ''world/black_hole'', Points3D (sphere_points 1) 2 [138, 43, 226] [])]"
    by simp
  moreover from c d have "entries_at ''world/attractor''
       (snd (plot (store_after three_samples three_samples_converted) (dataset_with 3) 2 0))
       = [(None, ''world/attractor'', Points3D (sphere_points 2) 2 [255, 255, 0] [])]"
    by simp
  ultimately show ?thesis using north_pole_mem by blast
qed

subsection \<open>Animation switched off\<close>

text \<open>
  Claim C8. With a step size of zero or less, \<open>plot\<close> does exactly what the scene part does
  and logs nothing under \<open>world/particle\<close>; the frame computation is not entered, and entered
  directly it returns at once, leaving the recording as it was. This holds for every dataset,
  with or without a data frame.
\<close>

theorem C8_nonpositive_step_no_frames:
  "animation_step_size \<le> 0 \<Longrightarrow>
     plot st self attractor_radius animation_step_size = plot_scene st self attractor_radius
   \<and> entries_at ''world/particle'' (snd (plot st self attractor_radius animation_step_size)) = []
   \<and> add_rerun_animation_frames st self animation_step_size w = (Inr (), w)"
proof (intro conjI)
  assume le: "animation_step_size \<le> 0"
  show eq: "plot st self attractor_radius animation_step_size = plot_scene st self attractor_radius"
    using le by (cases "plot_scene st self attractor_radius") (auto simp: plot_def split: sum.splits)
  show "entries_at ''world/particle'' (snd (plot st self attractor_radius animation_step_size)) = []"
    by (simp add: eq scene_no_particle)
  show "add_rerun_animation_frames st self animation_step_size w = (Inr (), w)"
    using le by (simp add: add_rerun_animation_frames_def)
qed

theorem C8_nonpositive_step_no_frames_witness:
  "plot (store_after three_samples three_samples_converted) (dataset_with 3) 0 0
     = plot_scene (store_after three_samples three_samples_converted) (dataset_with 3) 0
   \<and> entries_at ''world/particle''
       (snd (plot (store_after three_samples three_samples_converted) (dataset_with 3) 0 0)) = []
   \<and> add_rerun_animation_frames (store_after three_samples three_samples_converted)
       (dataset_with 3) 0 rr_init = (Inr (), rr_init)"
  by (rule C8_nonpositive_step_no_frames
        [where animation_step_size = 0 and st = "store_after three_samples three_samples_converted"
           and self = "dataset_with 3" and attractor_radius = 0 and w = rr_init])
     simp

subsection \<open>Frame selection\<close>




text \<open>
  Claim C4, as amended. For a dataset of more than one sample whose largest proper time is
  positive, and a positive step size for which the float64 value of \<open>step_size / tau_max * N\<close>
  of line 145 is finite and positive (it neither overflows nor underflows to zero), \<open>plot\<close>
  returns normally and the frames logged under \<open>world/particle\<close> are, in this order, those of the
  indices \<open>1, 1 + frame_step_size, 1 + 2 frame_step_size, ...\<close> below \<open>N\<close>, where \<open>frame_step_size\<close> is
  the ceiling of that value cut to \<open>max_num_anim_frames\<close>: the list is not empty, starts at 1, is
  strictly increasing, stays below \<open>N\<close>, and stops only when the next index would reach \<open>N\<close>.
\<close>

theorem C4_frame_indices:
  assumes d: "df self = Some d"
    and n: "1 < index_len d"
    and step: "0 < animation_step_size"
    and tmax: "0 < Max (set (column st d 0))"
    and fin: "fmul (fdiv (round64 animation_step_size) (round64 (Max (set (column st d 0)))))
                (round64 (real (index_len d))) = Finite p"
    and ppos: "0 < p"
    and mx: "0 < max_num_anim_frames self"
  shows "\<exists>frame_step_size ks.
      frame_step_size = min \<lceil>p\<rceil> (max_num_anim_frames self)
    \<and> 0 < frame_step_size
    \<and> fst (plot st self attractor_radius animation_step_size) = Inr ()
    \<and> entries_at ''world/particle'' (snd (plot st self attractor_radius animation_step_size))
        = map (\<lambda>k. particle_entry st d (nat k)) ks
    \<and> ks \<noteq> [] \<and> hd ks = 1
    \<and> (\<forall>j<length ks. ks ! j = 1 + int j * frame_step_size)
    \<and> (\<forall>k\<in>set ks. 1 \<le> k \<and> k < int (index_len d))
    \<and> sorted_wrt (<) ks
    \<and> int (index_len d) \<le> 1 + int (length ks) * frame_step_size"
proof -
  define f0 where "f0 = \<lceil>p\<rceil>"
  define f where "f = (if f0 > max_num_anim_frames self then max_num_anim_frames self else f0)"
  define ks where "ks = range_up 1 (int (index_len d)) f"
  have n0: "0 < index_len d" using n by simp
  have ne: "column st d 0 \<noteq> []" using n0 column_length[of st d 0] by auto
  have c: "compute_frame_step_size animation_step_size (column st d 0) (index_len d) = Inr f0"
    by (simp add: compute_frame_step_size_def series_max_Max[OF ne] fin math_ceil_def f0_def)
  have f0pos: "0 < f0" unfolding f0_def using ppos by (simp add: ceiling_less_iff)
  have fpos: "0 < f" using f0pos mx by (simp add: f_def)
  have fmin: "f = min f0 (max_num_anim_frames self)" by (simp add: f_def min_def)
  note pl = plot_particle_entries[OF d step c f_def fpos, of attractor_radius]
  have first: "ks \<noteq> [] \<and> hd ks = 1"
    unfolding ks_def using range_up_first[OF fpos, of 1 "int (index_len d)"] n by simp
  have nth: "\<forall>j<length ks. ks ! j = 1 + int j * f"
    unfolding ks_def using range_up_nth by blast
  have bnd: "\<forall>k\<in>set ks. 1 \<le> k \<and> k < int (index_len d)"
    unfolding ks_def using range_up_bounds by blast
  have srt: "sorted_wrt (<) ks" unfolding ks_def by (rule range_up_sorted)
  have mxl: "int (index_len d) \<le> 1 + int (length ks) * f"
    unfolding ks_def by (rule range_up_maximal[OF fpos])
  show ?thesis
    using fmin[unfolded f0_def] fpos pl(1) pl(2)[folded ks_def] first nth bnd srt mxl by blast
qed

theorem C4_frame_indices_witness:
  "fst (plot (store_after three_samples three_samples_converted) (dataset_with 3) 0 1) = Inr ()
   \<and> entries_at ''world/particle''
       (snd (plot (store_after three_samples three_samples_converted) (dataset_with 3) 0 1))
     = [particle_entry (store_after three_samples three_samples_converted)
          \<lparr>values_ref = 0, index_len = 3\<rparr> 1]"
proof -
  let ?S = "store_after three_samples three_samples_converted"
  let ?d = "\<lparr>values_ref = 0, index_len = 3\<rparr>"
  have q: "fdiv (Finite 1) (Finite 2) = Finite (1 / 2)" by (simp add: fdiv_def round64_half)
  have p: "fmul (Finite (1 / 2)) (Finite 3) = Finite (3 / 2)"
    by (simp add: fmul_def round64_three_halves)
  have h: "df (dataset_with 3) = Some ?d" "1 < index_len ?d" "(0::real) < 1"
      "0 < Max (set (column ?S ?d 0))"
      "fmul (fdiv (round64 1) (round64 (Max (set (column ?S ?d 0)))))
         (round64 (real (index_len ?d))) = Finite (3 / 2)"
      "(0::real) < 3 / 2"
      "0 < max_num_anim_frames (dataset_with 3)"
    by (simp_all add: dataset_with_def three_columns round64_one round64_two round64_three q p)
  from C4_frame_indices[OF h, of 0] obtain f ks where
    f: "f = min \<lceil>3 / 2 :: real\<rceil> (max_num_anim_frames (dataset_with 3))"
    and ok: "fst (plot ?S (dataset_with 3) 0 1) = Inr ()"
    and en: "entries_at ''world/particle'' (snd (plot ?S (dataset_with 3) 0 1))
        = map (\<lambda>k. particle_entry ?S ?d (nat k)) ks"
    and ne: "ks \<noteq> []" and hd: "hd ks = 1"
    and nth: "\<forall>j<length ks. ks ! j = 1 + int j * f"
    and bnd: "\<forall>k\<in>set ks. 1 \<le> k \<and> k < int (index_len ?d)"
    by blast
  have f2: "f = 2" using f by (simp add: dataset_with_def)
  have "length ks < 2"
  proof (rule ccontr)
    assume "\<not> length ks < 2"
    then have l: "1 < length ks" by simp
    with nth f2 have "ks ! 1 = 3" by simp
    moreover from l have "ks ! 1 \<in> set ks" by simp
    ultimately show False using bnd by fastforce
  qed
  with ne hd have "ks = [1]" by (cases ks) auto
  with ok en show ?thesis by simp
qed

text \<open>
  Claim C4 as stated fails when no proper time is positive. For two samples with
  \<open>tau = -2, -1\<close> and a step size of 1 the constructor succeeds with \<open>N = 2\<close>, the spacing is
  \<open>ceil(1 / (-1) * 2) = -2\<close>, \<open>range(1, 2, -2)\<close> is empty, and \<open>plot\<close> returns normally without
  the frame of index 1.
\<close>

theorem C4_negative_tau_counterexample:
  "SpaceTimeData_init ShareBuffer (store_of negative_tau_samples) (NdarrayRef 0) 1
     Conv_spherical_to_cartesian
     = Inr (store_after negative_tau_samples negative_tau_converted, dataset_with 2)
   \<and> SpaceTimeData_size (dataset_with 2) = Inr 2
   \<and> fst (plot (store_after negative_tau_samples negative_tau_converted) (dataset_with 2) 0 1)
       = Inr ()
   \<and> entries_at ''world/particle''
       (snd (plot (store_after negative_tau_samples negative_tau_converted) (dataset_with 2) 0 1))
       = []"
proof -
  let ?S = "store_after negative_tau_samples negative_tau_converted"
  let ?d = "\<lparr>values_ref = 0, index_len = 2\<rparr>"
  have d: "df (dataset_with 2) = Some ?d" by (simp add: dataset_with_def)
  have c: "compute_frame_step_size 1 (column ?S ?d 0) 2 = Inr (- 2)"
    by (simp add: negative_columns negative_step)
  have r: "py_range 1 2 (- 2) = Inr []"
    by (simp add: py_range_def range_down.simps)
  have run: "add_rerun_animation_frames ?S (dataset_with 2) 1 w = (Inr (), w)" for w
    using c r by (simp add: add_rerun_animation_frames_def dataset_with_def)
  have p: "plot ?S (dataset_with 2) 0 1 = (Inr (), snd (plot_scene ?S (dataset_with 2) 0))"
    using plot_with_frames[OF d, of 1 ?S 0] by (simp add: run)
  show ?thesis
    by (simp add: init_negative_tau SpaceTimeData_size_def dataset_with_def[symmetric] d p scene_no_particle)
qed

subsection \<open>The number of frames\<close>

text \<open>
  Claim C2 does not hold of the code: \<open>max_num_anim_frames\<close> bounds the spacing between frame
  indices, not the number of frames. For 129 samples with \<open>tau = 0, ..., 128\<close> and a step size
  of \<open>1/2\<close> the spacing is \<open>ceil(0.5 / 128 * 129) = 1\<close>, no warning is logged, and \<open>plot\<close> logs
  128 frames although \<open>max_num_anim_frames\<close> is 100.
\<close>

theorem C2_frame_count_exceeds_bound:
  "\<exists>st' self.
      SpaceTimeData_init ShareBuffer (store_of ramp_samples) (NdarrayRef 0) 1 Conv_spherical_to_cartesian
        = Inr (st', self)
    \<and> SpaceTimeData_size self = Inr 129
    \<and> max_num_anim_frames self = 100
    \<and> fst (plot st' self 0 (1 / 2)) = Inr ()
    \<and> warnings (snd (plot st' self 0 (1 / 2))) = []
    \<and> length (entries_at ''world/particle'' (snd (plot st' self 0 (1 / 2)))) = 128"
proof -
  define b where "b = fold convert_point [0..<129] ramp_samples"
  define S where "S = (store_of ramp_samples)(0 := b)"
  let ?d = "\<lparr>values_ref = 0, index_len = 129\<rparr>"
  have init: "SpaceTimeData_init ShareBuffer (store_of ramp_samples) (NdarrayRef 0) 1 Conv_spherical_to_cartesian
        = Inr (S, dataset_with 129)"
    using ramp_any
    by (simp add: SpaceTimeData_init_def DataFrame_new_def py_len_def store_of_def ramp_shape
        dataset_with_def S_def b_def)
  have cell: "\<And>i. i < 129 \<Longrightarrow> getitem2 b i 0 = getitem2 ramp_samples i 0"
    using convert_loop[OF ramp_shape, of 129] by (simp add: b_def)
  have tau: "column S ?d 0 = map real [0..<129]"
    by (simp add: column_def S_def cell ramp_getitem)
  have h: "df (dataset_with 129) = Some ?d" "(0::real) < 1 / 2"
      "compute_frame_step_size (1 / 2) (column S ?d 0) (index_len ?d) = Inr 1"
      "(1::int) = (if 1 > max_num_anim_frames (dataset_with 129)
                   then max_num_anim_frames (dataset_with 129) else 1)"
      "(0::int) < 1"
    unfolding tau by (simp_all add: dataset_with_def ramp_step)
  note pl = plot_particle_entries[OF h, of 0]
  have cnt: "length (range_up 1 129 1) = 128" by code_simp
  have "length (entries_at ''world/particle'' (snd (plot S (dataset_with 129) 0 (1 / 2)))) = 128"
    using pl(2) cnt by simp
  moreover have "warnings (snd (plot S (dataset_with 129) 0 (1 / 2))) = []"
    using pl(3) by (simp add: dataset_with_def)
  moreover have "SpaceTimeData_size (dataset_with 129) = Inr 129"
      "max_num_anim_frames (dataset_with 129) = 100"
    by (simp_all add: SpaceTimeData_size_def dataset_with_def)
  ultimately show ?thesis using init pl(1) by blast
qed

subsection \<open>A proper time that is zero throughout\<close>

text \<open>
  Claim C3 does not hold of the code. For two samples with \<open>tau = 0\<close> and a step size of 1 the
  constructor succeeds, and \<open>plot\<close> ends in the \<open>OverflowError\<close> that \<open>math.ceil\<close> raises for the
  infinite quotient of line 145; no frame is logged, but the call does not return normally.
\<close>

theorem C3_zero_tau_max_raises:
  "SpaceTimeData_init ShareBuffer (store_of zero_tau_samples) (NdarrayRef 0) 1 Conv_spherical_to_cartesian
     = Inr (store_after zero_tau_samples zero_tau_converted, dataset_with 2)
   \<and> fst (plot (store_after zero_tau_samples zero_tau_converted) (dataset_with 2) 0 1)
       = Inl (OverflowError ''cannot convert float infinity to integer'')
   \<and> entries_at ''world/particle''
       (snd (plot (store_after zero_tau_samples zero_tau_converted) (dataset_with 2) 0 1)) = []"
proof -
  let ?S = "store_after zero_tau_samples zero_tau_converted"
  let ?d = "\<lparr>values_ref = 0, index_len = 2\<rparr>"
  have d: "df (dataset_with 2) = Some ?d" by (simp add: dataset_with_def)
  have c: "compute_frame_step_size 1 (column ?S ?d 0) 2
      = Inl (OverflowError ''cannot convert float infinity to integer'')"
    by (simp add: zero_tau_columns zero_tau_step)
  have run: "add_rerun_animation_frames ?S (dataset_with 2) 1 w
      = (Inl (OverflowError ''cannot convert float infinity to integer''), w)" for w
    using c by (simp add: add_rerun_animation_frames_def dataset_with_def)
  have p: "plot ?S (dataset_with 2) 0 1
      = (Inl (OverflowError ''cannot convert float infinity to integer''),
         snd (plot_scene ?S (dataset_with 2) 0))"
    using plot_with_frames[OF d, of 1 ?S 0] by (simp add: run)
  show ?thesis
    by (simp add: init_zero_tau p scene_no_particle)
qed

subsection \<open>Derived quantities\<close>



end
